theory Spec2Isabelle
  imports Complex_Main "HOL-Library.Sublist"
begin

section \<open>Python values used by \<^verbatim>\<open>cfdppparser.py\<close>\<close>

text \<open>
  The parser class \<^verbatim>\<open>CFDppParser\<close> reads four text files of a CFD++ case directory
  and accumulates forces and moments. Python floats are idealised as \<^typ>\<open>real\<close>
  (no rounding, no infinities), Python ints are \<^typ>\<open>int\<close>, strings are ASCII
  \<^typ>\<open>string\<close>s. Every exception of the source is a value.
\<close>

datatype py_exception =
    FileNotFoundError | IsADirectoryError | IndexError | ValueError | ZeroDivisionError

text \<open>
  Each reader wraps its body in \<^verbatim>\<open>try: ... except Exception as e: print(e); exit(1)\<close>:
  \<open>Exited e\<close> is that outcome. The accessor methods have no handler: \<open>Raised e\<close>
  is an exception that leaves the method.
\<close>

datatype error = Exited py_exception | Raised py_exception

fun ebind :: "'e + 'a \<Rightarrow> ('a \<Rightarrow> 'e + 'b) \<Rightarrow> 'e + 'b" where
  "ebind (Inl e) f = Inl e"
| "ebind (Inr a) f = f a"

text \<open>\<^verbatim>\<open>for x in xs: body\<close>, where the body may raise.\<close>

fun for_each :: "('a \<Rightarrow> 's \<Rightarrow> 'e + 's) \<Rightarrow> 'a list \<Rightarrow> 's \<Rightarrow> 'e + 's" where
  "for_each body [] s = Inr s"
| "for_each body (x # xs) s = ebind (body x s) (for_each body xs)"

text \<open>\<^verbatim>\<open>xs[i]\<close>: a negative index counts from the end of the list.\<close>

definition py_index :: "'a list \<Rightarrow> int \<Rightarrow> py_exception + 'a" where
  "py_index xs i =
     (if 0 \<le> i \<and> i < int (length xs) then Inr (xs ! nat i)
      else if i < 0 \<and> - int (length xs) \<le> i then Inr (xs ! nat (int (length xs) + i))
      else Inl IndexError)"

text \<open>\<^verbatim>\<open>xs[k] = v\<close> and \<^verbatim>\<open>xs[k] += rhs\<close> for a literal index \<open>k\<close>.\<close>

definition py_setitem :: "'a list \<Rightarrow> nat \<Rightarrow> 'a \<Rightarrow> py_exception + 'a list" where
  "py_setitem xs k v = (if k < length xs then Inr (xs[k := v]) else Inl IndexError)"

definition py_iadd :: "real list \<Rightarrow> nat \<Rightarrow> py_exception + real \<Rightarrow> py_exception + real list" where
  "py_iadd xs k rhs =
     (if k < length xs then ebind rhs (\<lambda>v. Inr (xs[k := xs ! k + v])) else Inl IndexError)"

text \<open>Float division raises on a zero divisor; \<^verbatim>\<open>math.sqrt\<close> raises on a negative argument.\<close>

definition py_div :: "real \<Rightarrow> real \<Rightarrow> py_exception + real" where
  "py_div a b = (if b = 0 then Inl ZeroDivisionError else Inr (a / b))"

definition py_sqrt :: "real \<Rightarrow> py_exception + real" where
  "py_sqrt x = (if x < 0 then Inl ValueError else Inr (sqrt x))"

definition radians :: "real \<Rightarrow> real" where
  "radians d = d * pi / 180"

text \<open>\<^verbatim>\<open>range(n)\<close> is empty for \<open>n \<le> 0\<close>.\<close>

definition py_range :: "int \<Rightarrow> int list" where
  "py_range n = map int [0..<nat n]"

subsection \<open>Strings\<close>

text \<open>\<^verbatim>\<open>sub in s\<close> on strings: \<open>sub\<close> occurs in \<open>s\<close> as a contiguous block.\<close>

fun str_contains :: "string \<Rightarrow> string \<Rightarrow> bool" where
  "str_contains sub [] = (sub = [])"
| "str_contains sub (c # cs) = (prefix sub (c # cs) \<or> str_contains sub cs)"

text \<open>The ASCII characters for which \<^verbatim>\<open>str.isspace\<close> holds.\<close>

definition isspace :: "char \<Rightarrow> bool" where
  "isspace c = (c \<in> set [CHR 0x09, CHR 0x0A, CHR 0x0B, CHR 0x0C, CHR 0x0D,
                          CHR 0x1C, CHR 0x1D, CHR 0x1E, CHR 0x1F, CHR 0x20])"

text \<open>
  \<^verbatim>\<open>s.split()\<close>: the maximal blocks of non-whitespace characters, in order.
  The first argument is the block being read.
\<close>

fun split_from :: "string \<Rightarrow> string \<Rightarrow> string list" where
  "split_from w [] = (if w = [] then [] else [w])"
| "split_from w (c # cs) =
     (if isspace c then (if w = [] then split_from [] cs else w # split_from [] cs)
      else split_from (w @ [c]) cs)"

definition str_split :: "string \<Rightarrow> string list" where
  "str_split s = split_from [] s"

text \<open>
  The conversions \<^verbatim>\<open>float(s)\<close> and \<^verbatim>\<open>int(s)\<close> are Python built-ins, not code of
  the repository: the readers take them as a parameter. \<open>None\<close> is the \<^verbatim>\<open>ValueError\<close>
  they raise on a string that is no numeral.
\<close>

record builtins =
  py_float :: "string \<Rightarrow> real option"
  py_int :: "string \<Rightarrow> int option"

definition to_float :: "builtins \<Rightarrow> string \<Rightarrow> py_exception + real" where
  "to_float B s = (case py_float B s of None \<Rightarrow> Inl ValueError | Some v \<Rightarrow> Inr v)"

definition to_int :: "builtins \<Rightarrow> string \<Rightarrow> py_exception + int" where
  "to_int B s = (case py_int B s of None \<Rightarrow> Inl ValueError | Some v \<Rightarrow> Inr v)"

text \<open>\<^verbatim>\<open>line.split()[k]\<close>, \<^verbatim>\<open>float(line.split()[k])\<close> and \<^verbatim>\<open>float(lines[i].split()[k])\<close>.\<close>

definition field :: "string \<Rightarrow> int \<Rightarrow> py_exception + string" where
  "field line k = py_index (str_split line) k"

definition float_field :: "builtins \<Rightarrow> string \<Rightarrow> int \<Rightarrow> py_exception + real" where
  "float_field B line k = ebind (field line k) (to_float B)"

definition float_cell :: "builtins \<Rightarrow> string list \<Rightarrow> int \<Rightarrow> int \<Rightarrow> py_exception + real" where
  "float_cell B lines i k = ebind (py_index lines i) (\<lambda>line. float_field B line k)"

text \<open>
  \<^verbatim>\<open>xs.index(x, start, stop)\<close>: the first position of \<open>x\<close> in the slice, \<^verbatim>\<open>ValueError\<close>
  when there is none. Negative bounds count from the end and are clamped at 0.
\<close>

fun first_index :: "'a \<Rightarrow> 'a list \<Rightarrow> nat option" where
  "first_index x [] = None"
| "first_index x (y # ys) = (if y = x then Some 0 else map_option Suc (first_index x ys))"

definition clamp_bound :: "nat \<Rightarrow> int \<Rightarrow> nat" where
  "clamp_bound n i = (if i < 0 then nat (int n + i) else nat i)"

definition list_index :: "'a list \<Rightarrow> 'a \<Rightarrow> int \<Rightarrow> int \<Rightarrow> py_exception + int" where
  "list_index xs x start stop =
     (case first_index x (drop (clamp_bound (length xs) start)
                            (take (clamp_bound (length xs) stop) xs)) of
        None \<Rightarrow> Inl ValueError
      | Some k \<Rightarrow> Inr (int (clamp_bound (length xs) start + k)))"

subsection \<open>The case directory\<close>

text \<open>
  A path names a directory or a text file; a file is the list of lines that
  \<^verbatim>\<open>readlines()\<close> returns. The readers open files for reading only, so the file
  system is an argument of every operation and is never returned.
\<close>

datatype node = Directory | File "string list"

type_synonym filesystem = "string \<Rightarrow> node option"

definition path_exists :: "filesystem \<Rightarrow> string \<Rightarrow> bool" where
  "path_exists fs path = (fs path \<noteq> None)"

definition readlines :: "filesystem \<Rightarrow> string \<Rightarrow> py_exception + string list" where
  "readlines fs path =
     (case fs path of
        None \<Rightarrow> Inl FileNotFoundError
      | Some Directory \<Rightarrow> Inl IsADirectoryError
      | Some (File ls) \<Rightarrow> Inr ls)"

section \<open>The parser object\<close>

datatype SymmetryPlaneType = none | xyPlane | xzPlane

text \<open>
  The attributes of a \<^verbatim>\<open>CFDppParser\<close> object. \<open>SymmPlaneType\<close> is the attribute that
  \<^verbatim>\<open>__ReadRefGeomVals\<close> creates by assignment; it does not exist (\<open>None\<close>) before.
\<close>

record CFDppParser =
  caseName :: string
  logFileName :: string
  info1FileName :: string
  infinFileName :: string
  infoutFileName :: string
  symmPlane :: SymmetryPlaneType
  indexLift :: int
  indexDrag :: int
  indexSide :: int
  refPres :: real
  refTemp :: real
  refVels :: "real list"
  refVmag :: real
  refDens :: real
  refMach :: real
  numBounds :: int
  noSlipWalls :: "int list"
  alpha :: real
  refArea :: real
  refLength :: real
  refOrign :: "real list"
  force_tol :: "real list"
  force_inv :: "real list"
  force_vis :: "real list"
  moment :: "real list"
  div_moment :: real
  xCenterOfPressure :: real
  idUpper :: int
  idLower :: int
  SymmPlaneType :: "SymmetryPlaneType option"

definition const_R :: real where
  "const_R = 287"

definition const_gamma :: real where
  "const_gamma = 14 / 10"

subsection \<open>Validation and construction\<close>

text \<open>
  \<^verbatim>\<open>__Validate\<close> returns whether the directory, the log, the report file and one of
  the two geometry files exist, with the lines it prints.
\<close>

definition Validate :: "filesystem \<Rightarrow> CFDppParser \<Rightarrow> bool \<times> string list" where
  "Validate fs self =
     (let v0 = path_exists fs (caseName self);
          (v1, out1) =
             (if v0 then
                (if \<not> path_exists fs (logFileName self)
                 then (False, [''File not Found:'' @ logFileName self])
                 else (True, []))
              else (v0, []));
          (v2, out2) =
             (if v1 then
                (if \<not> path_exists fs (info1FileName self)
                 then (False, out1 @ [''File not Found:'' @ info1FileName self])
                 else (True, out1))
              else (v1, out1));
          (v3, out3) =
             (if v2 then
                (if \<not> path_exists fs (infinFileName self) \<and> \<not> path_exists fs (infoutFileName self)
                 then (False, out2 @ [''File not Found:'' @ infinFileName self @ '' or ''
                                        @ infoutFileName self])
                 else (True, out2))
              else (v2, out2))
      in (v3, out3))"

text \<open>The attribute values that \<^verbatim>\<open>__init__\<close> assigns.\<close>

definition new_parser :: "string \<Rightarrow> CFDppParser" where
  "new_parser name =
     \<lparr> caseName = name,
       logFileName = name @ ''/'' @ name @ ''.log'',
       info1FileName = name @ ''/mcfd.info1'',
       infinFileName = name @ ''/infout1f.inp'',
       infoutFileName = name @ ''/infout1f.out'',
       symmPlane = none,
       indexLift = - 99,
       indexDrag = - 99,
       indexSide = - 99,
       refPres = 0,
       refTemp = 0,
       refVels = [0, 0, 0],
       refVmag = 0,
       refDens = 0,
       refMach = 0,
       numBounds = 0,
       noSlipWalls = [],
       alpha = 0,
       refArea = 0,
       refLength = 0,
       refOrign = [0, 0, 0],
       force_tol = [0, 0, 0],
       force_inv = [0, 0, 0],
       force_vis = [0, 0, 0],
       moment = [0, 0, 0],
       div_moment = 0,
       xCenterOfPressure = 0,
       idUpper = - 1,
       idLower = - 1,
       SymmPlaneType = None \<rparr>"

text \<open>
  \<^verbatim>\<open>__init__\<close> calls \<^verbatim>\<open>self.__Validate()\<close> as a statement: the lines are printed, the
  returned flag is dropped, and the object is built in every case. The result is the
  printed lines and the object.
\<close>

definition init :: "filesystem \<Rightarrow> string \<Rightarrow> string list \<times> CFDppParser" where
  "init fs name = (snd (Validate fs (new_parser name)), new_parser name)"

subsection \<open>Exception handlers\<close>

text \<open>\<^verbatim>\<open>try: body  except Exception as e: print(e); exit(1)\<close>, and a body with no handler.\<close>

definition guarded :: "py_exception + 'a \<Rightarrow> error + 'a" where
  "guarded r = (case r of Inl e \<Rightarrow> Inl (Exited e) | Inr a \<Rightarrow> Inr a)"

definition uncaught :: "py_exception + 'a \<Rightarrow> error + 'a" where
  "uncaught r = (case r of Inl e \<Rightarrow> Inl (Raised e) | Inr a \<Rightarrow> Inr a)"

subsection \<open>Reference values: \<^verbatim>\<open>__ReadRefVals\<close>\<close>

text \<open>\<^verbatim>\<open>token in line and len(line.split()) == 3\<close>\<close>

definition match3 :: "string \<Rightarrow> string \<Rightarrow> bool" where
  "match3 token line = (str_contains token line \<and> length (str_split line) = 3)"

text \<open>
  The loop body is five \<^verbatim>\<open>if\<close> statements, run in the order of the source:
  \<^verbatim>\<open>if "aero_pres" in line and len(line.split()) == 3: self.refPres = float(line.split()[2])\<close>,
  the same for \<open>refTemp\<close>, and \<^verbatim>\<open>self.refVels[k] = float(line.split()[2])\<close> for the
  three velocity tokens.
\<close>

definition set_refPres :: "builtins \<Rightarrow> string \<Rightarrow> CFDppParser \<Rightarrow> py_exception + CFDppParser" where
  "set_refPres B line self =
     (if match3 ''aero_pres'' line
      then ebind (float_field B line 2) (\<lambda>v. Inr (self\<lparr>refPres := v\<rparr>))
      else Inr self)"

definition set_refTemp :: "builtins \<Rightarrow> string \<Rightarrow> CFDppParser \<Rightarrow> py_exception + CFDppParser" where
  "set_refTemp B line self =
     (if match3 ''aero_temp'' line
      then ebind (float_field B line 2) (\<lambda>v. Inr (self\<lparr>refTemp := v\<rparr>))
      else Inr self)"

definition set_refVel ::
  "string \<Rightarrow> nat \<Rightarrow> builtins \<Rightarrow> string \<Rightarrow> CFDppParser \<Rightarrow> py_exception + CFDppParser" where
  "set_refVel token k B line self =
     (if match3 token line
      then ebind (float_field B line 2) (\<lambda>v.
           ebind (py_setitem (refVels self) k v) (\<lambda>vs. Inr (self\<lparr>refVels := vs\<rparr>)))
      else Inr self)"

definition RefVals_line :: "builtins \<Rightarrow> string \<Rightarrow> CFDppParser \<Rightarrow> py_exception + CFDppParser" where
  "RefVals_line B line =
     for_each (\<lambda>stmt. stmt)
       [set_refPres B line,
        set_refTemp B line,
        set_refVel ''aero_u'' 0 B line,
        set_refVel ''aero_v'' 1 B line,
        set_refVel ''aero_w'' 2 B line]"

text \<open>
  After the loop: the magnitude is accumulated onto the attribute \<open>refVmag\<close> itself
  (\<^verbatim>\<open>self.refVmag += vel*vel\<close>), then density and Mach number are computed.
\<close>

definition RefVals_derive :: "CFDppParser \<Rightarrow> py_exception + CFDppParser" where
  "RefVals_derive self =
     ebind (py_sqrt (foldl (\<lambda>acc vel. acc + vel * vel) (refVmag self) (refVels self))) (\<lambda>vmag.
     ebind (py_div (refPres self) const_R) (\<lambda>t.
     ebind (py_div t (refTemp self)) (\<lambda>dens.
     ebind (py_sqrt (const_gamma * const_R * refTemp self)) (\<lambda>sound_speed.
     ebind (py_div vmag sound_speed) (\<lambda>mach.
     Inr (self\<lparr>refVmag := vmag, refDens := dens, refMach := mach\<rparr>))))))"

definition ReadRefVals :: "builtins \<Rightarrow> filesystem \<Rightarrow> CFDppParser \<Rightarrow> error + CFDppParser" where
  "ReadRefVals B fs self =
     guarded (ebind (readlines fs (logFileName self)) (\<lambda>lines.
              ebind (for_each (RefVals_line B) lines self) RefVals_derive))"

subsection \<open>Boundary conditions: \<^verbatim>\<open>__ReadBcInfos\<close>\<close>

text \<open>The first loop stops (\<^verbatim>\<open>break\<close>) at the first line that matches.\<close>

fun read_numBounds :: "builtins \<Rightarrow> string list \<Rightarrow> CFDppParser \<Rightarrow> py_exception + CFDppParser" where
  "read_numBounds B [] self = Inr self"
| "read_numBounds B (line # rest) self =
     (if match3 ''mbcons'' line
      then ebind (ebind (field line 2) (to_int B)) (\<lambda>n. Inr (self\<lparr>numBounds := n\<rparr>))
      else read_numBounds B rest self)"

text \<open>
  The second loop carries the local \<open>staIndex\<close> beside the object. The boundary index
  is read from \<^verbatim>\<open>lines[staIndex-2]\<close>.
\<close>

definition NoSlip_line ::
  "builtins \<Rightarrow> string list \<Rightarrow> string \<Rightarrow> int \<times> CFDppParser \<Rightarrow> py_exception + int \<times> CFDppParser" where
  "NoSlip_line B lines line st =
     (case st of (staIndex, self) \<Rightarrow>
        if str_contains ''# No-slip adiabatic wall'' line
        then ebind (list_index lines line staIndex (int (length lines))) (\<lambda>sta.
             ebind (py_index lines (sta - 2)) (\<lambda>above.
             ebind (field above 1) (\<lambda>noSlipWall.
             ebind (to_int B noSlipWall) (\<lambda>w.
             Inr (sta + 1, self\<lparr>noSlipWalls := noSlipWalls self @ [w]\<rparr>)))))
        else Inr (staIndex, self))"

definition ReadBcInfos :: "builtins \<Rightarrow> filesystem \<Rightarrow> CFDppParser \<Rightarrow> error + CFDppParser" where
  "ReadBcInfos B fs self =
     guarded (ebind (readlines fs (logFileName self)) (\<lambda>lines.
              ebind (read_numBounds B lines self) (\<lambda>self1.
              ebind (for_each (NoSlip_line B lines) lines (0, self1)) (\<lambda>st. Inr (snd st)))))"

subsection \<open>Reference geometry: \<^verbatim>\<open>IsClDriverCase\<close> and \<^verbatim>\<open>__ReadRefGeomVals\<close>\<close>

definition IsClDriverCase :: "filesystem \<Rightarrow> CFDppParser \<Rightarrow> error + bool" where
  "IsClDriverCase fs self =
     guarded (ebind (readlines fs (logFileName self)) (\<lambda>inpTexts.
              Inr (list_ex (str_contains ''cldriver_controls'') inpTexts)))"

text \<open>
  The loop body is seven \<^verbatim>\<open>if\<close> statements, run in the order of the source; a line
  may match several keys. The value is the second field of the line.
\<close>

definition set_alpha :: "builtins \<Rightarrow> string \<Rightarrow> CFDppParser \<Rightarrow> py_exception + CFDppParser" where
  "set_alpha B line self =
     (if str_contains ''alpha'' line
      then ebind (float_field B line 1) (\<lambda>v. Inr (self\<lparr>alpha := v\<rparr>))
      else Inr self)"

definition set_refArea :: "builtins \<Rightarrow> string \<Rightarrow> CFDppParser \<Rightarrow> py_exception + CFDppParser" where
  "set_refArea B line self =
     (if str_contains ''axref'' line
      then ebind (float_field B line 1) (\<lambda>v. Inr (self\<lparr>refArea := v\<rparr>))
      else Inr self)"

definition set_refLength :: "builtins \<Rightarrow> string \<Rightarrow> CFDppParser \<Rightarrow> py_exception + CFDppParser" where
  "set_refLength B line self =
     (if str_contains ''lxref'' line
      then ebind (float_field B line 1) (\<lambda>v. Inr (self\<lparr>refLength := v\<rparr>))
      else Inr self)"

definition set_refOrign ::
  "string \<Rightarrow> nat \<Rightarrow> builtins \<Rightarrow> string \<Rightarrow> CFDppParser \<Rightarrow> py_exception + CFDppParser" where
  "set_refOrign token k B line self =
     (if str_contains token line
      then ebind (float_field B line 1) (\<lambda>v.
           ebind (py_setitem (refOrign self) k v) (\<lambda>vs. Inr (self\<lparr>refOrign := vs\<rparr>)))
      else Inr self)"

definition set_plane :: "string \<Rightarrow> CFDppParser \<Rightarrow> py_exception + CFDppParser" where
  "set_plane line self =
     (if str_contains ''plane'' line
      then ebind (field line 1) (\<lambda>plane.
           if plane = ''xy''
           then Inr (self\<lparr>SymmPlaneType := Some xyPlane,
                          indexDrag := 0, indexLift := 1, indexSide := 2\<rparr>)
           else Inr (self\<lparr>SymmPlaneType := Some xzPlane,
                          indexDrag := 0, indexLift := 2, indexSide := 1\<rparr>))
      else Inr self)"

definition RefGeom_line :: "builtins \<Rightarrow> string \<Rightarrow> CFDppParser \<Rightarrow> py_exception + CFDppParser" where
  "RefGeom_line B line =
     for_each (\<lambda>stmt. stmt)
       [set_alpha B line,
        set_refArea B line,
        set_refLength B line,
        set_refOrign ''xcen'' 0 B line,
        set_refOrign ''ycen'' 1 B line,
        set_refOrign ''zcen'' 2 B line,
        set_plane line]"

text \<open>
  \<^verbatim>\<open>exit(1)\<close> inside \<^verbatim>\<open>IsClDriverCase\<close> raises \<^verbatim>\<open>SystemExit\<close>, which the handler
  \<^verbatim>\<open>except Exception\<close> of the caller does not catch.
\<close>

definition ReadRefGeomVals :: "builtins \<Rightarrow> filesystem \<Rightarrow> CFDppParser \<Rightarrow> error + CFDppParser" where
  "ReadRefGeomVals B fs self =
     ebind (IsClDriverCase fs self) (\<lambda>cl.
     guarded (ebind (readlines fs (if cl then infoutFileName self else infinFileName self))
                (\<lambda>lines. for_each (RefGeom_line B) lines self)))"

subsection \<open>Forces and moments: \<^verbatim>\<open>__ReadForces\<close>\<close>

text \<open>\<^verbatim>\<open>self.force_tol[k] += float(lines[i].split()[j])\<close> and its three siblings.\<close>

definition add_tol :: "builtins \<Rightarrow> string list \<Rightarrow> nat \<Rightarrow> int \<Rightarrow> int \<Rightarrow> CFDppParser \<Rightarrow> py_exception + CFDppParser" where
  "add_tol B lines k i j self =
     ebind (py_iadd (force_tol self) k (float_cell B lines i j)) (\<lambda>xs. Inr (self\<lparr>force_tol := xs\<rparr>))"

definition add_inv :: "builtins \<Rightarrow> string list \<Rightarrow> nat \<Rightarrow> int \<Rightarrow> int \<Rightarrow> CFDppParser \<Rightarrow> py_exception + CFDppParser" where
  "add_inv B lines k i j self =
     ebind (py_iadd (force_inv self) k (float_cell B lines i j)) (\<lambda>xs. Inr (self\<lparr>force_inv := xs\<rparr>))"

definition add_vis :: "builtins \<Rightarrow> string list \<Rightarrow> nat \<Rightarrow> int \<Rightarrow> int \<Rightarrow> CFDppParser \<Rightarrow> py_exception + CFDppParser" where
  "add_vis B lines k i j self =
     ebind (py_iadd (force_vis self) k (float_cell B lines i j)) (\<lambda>xs. Inr (self\<lparr>force_vis := xs\<rparr>))"

definition add_moment :: "builtins \<Rightarrow> string list \<Rightarrow> nat \<Rightarrow> int \<Rightarrow> int \<Rightarrow> CFDppParser \<Rightarrow> py_exception + CFDppParser" where
  "add_moment B lines k i j self =
     ebind (py_iadd (moment self) k (float_cell B lines i j)) (\<lambda>xs. Inr (self\<lparr>moment := xs\<rparr>))"

text \<open>The twelve statements executed for a no-slip boundary, as a list run in order.\<close>

definition Forces_block :: "builtins \<Rightarrow> string list \<Rightarrow> int \<Rightarrow> CFDppParser \<Rightarrow> py_exception + CFDppParser" where
  "Forces_block B lines blockIndex =
     for_each (\<lambda>stmt. stmt)
       [add_tol B lines 0 (blockIndex + 3) 2,
        add_inv B lines 0 (blockIndex + 3) 3,
        add_vis B lines 0 (blockIndex + 3) 4,
        add_tol B lines 1 (blockIndex + 4) 2,
        add_inv B lines 1 (blockIndex + 4) 3,
        add_vis B lines 1 (blockIndex + 4) 4,
        add_tol B lines 2 (blockIndex + 5) 2,
        add_inv B lines 2 (blockIndex + 5) 3,
        add_vis B lines 2 (blockIndex + 5) 4,
        add_moment B lines 0 (blockIndex + 6) 2,
        add_moment B lines 1 (blockIndex + 7) 2,
        add_moment B lines 2 (blockIndex + 8) 2]"

definition Forces_step :: "builtins \<Rightarrow> string list \<Rightarrow> int \<Rightarrow> int \<Rightarrow> CFDppParser \<Rightarrow> py_exception + CFDppParser" where
  "Forces_step B lines staIndex ibc self =
     (let blockIndex = staIndex + ibc * 23
      in if ibc + 1 \<in> set (noSlipWalls self) then Forces_block B lines blockIndex self
         else Inr self)"

definition ReadForces :: "builtins \<Rightarrow> filesystem \<Rightarrow> CFDppParser \<Rightarrow> error + CFDppParser" where
  "ReadForces B fs self =
     guarded (ebind (readlines fs (info1FileName self)) (\<lambda>lines.
              let numLines = int (length lines);
                  staIndex = numLines - 23 * numBounds self + 1
              in for_each (Forces_step B lines staIndex) (py_range (numBounds self)) self))"

subsection \<open>The extraction pass: \<^verbatim>\<open>Process\<close>\<close>

definition Process :: "builtins \<Rightarrow> filesystem \<Rightarrow> CFDppParser \<Rightarrow> error + CFDppParser" where
  "Process B fs self =
     ebind (ReadRefVals B fs self) (\<lambda>self1.
     ebind (ReadBcInfos B fs self1) (\<lambda>self2.
     ebind (ReadRefGeomVals B fs self2) (\<lambda>self3.
     ReadForces B fs self3)))"

subsection \<open>Coefficients\<close>

definition coeff_div :: "CFDppParser \<Rightarrow> real" where
  "coeff_div self = 0.5 * refDens self * refVmag self * refVmag self * refArea self"

text \<open>One entry of \<^verbatim>\<open>Cl\<close> and of \<^verbatim>\<open>Cd\<close>, for the force vector \<open>force\<close>.\<close>

definition lift_entry :: "CFDppParser \<Rightarrow> real list \<Rightarrow> py_exception + real" where
  "lift_entry self force =
     ebind (py_index force (indexLift self)) (\<lambda>fl.
     ebind (py_index force (indexDrag self)) (\<lambda>fd.
     py_div (fl * cos (radians (alpha self)) - fd * sin (radians (alpha self))) (coeff_div self)))"

definition drag_entry :: "CFDppParser \<Rightarrow> real list \<Rightarrow> py_exception + real" where
  "drag_entry self force =
     ebind (py_index force (indexLift self)) (\<lambda>fl.
     ebind (py_index force (indexDrag self)) (\<lambda>fd.
     py_div (fl * sin (radians (alpha self)) + fd * cos (radians (alpha self))) (coeff_div self)))"

definition GetCoeffLift :: "CFDppParser \<Rightarrow> error + real list" where
  "GetCoeffLift self =
     uncaught (ebind (lift_entry self (force_tol self)) (\<lambda>c0.
               ebind (lift_entry self (force_inv self)) (\<lambda>c1.
               ebind (lift_entry self (force_vis self)) (\<lambda>c2.
               Inr [c0, c1, c2]))))"

definition GetCoeffDrag :: "CFDppParser \<Rightarrow> error + real list" where
  "GetCoeffDrag self =
     uncaught (ebind (drag_entry self (force_tol self)) (\<lambda>c0.
               ebind (drag_entry self (force_inv self)) (\<lambda>c1.
               ebind (drag_entry self (force_vis self)) (\<lambda>c2.
               Inr [c0, c1, c2]))))"

definition GetCoeffMoment :: "CFDppParser \<Rightarrow> error + real" where
  "GetCoeffMoment self =
     uncaught (ebind (py_index (moment self) (indexSide self)) (\<lambda>m.
               ebind (py_index (force_tol self) (indexLift self)) (\<lambda>fl.
               ebind (py_index (refOrign self) (indexDrag self)) (\<lambda>od.
               ebind (py_index (force_tol self) (indexDrag self)) (\<lambda>fd.
               ebind (py_index (refOrign self) (indexLift self)) (\<lambda>ol.
               py_div (m + fl * od - fd * ol) (coeff_div self * refLength self)))))))"

definition GetCenterOfPressure :: "CFDppParser \<Rightarrow> error + real" where
  "GetCenterOfPressure self =
     uncaught (ebind (py_index (moment self) (indexSide self)) (\<lambda>m.
               ebind (py_index (force_tol self) (indexLift self)) (\<lambda>fl.
               py_div m fl)))"

subsection \<open>Decimal numerals\<close>

text \<open>
  A concrete pair of conversions for evaluating the readers on example files: on a
  string of decimal digits with an optional sign they return what \<^verbatim>\<open>int\<close> and
  \<^verbatim>\<open>float\<close> return; every other string is rejected.
\<close>

fun digits_value :: "nat \<Rightarrow> string \<Rightarrow> nat option" where
  "digits_value acc [] = Some acc"
| "digits_value acc (c # cs) =
     (case first_index c ''0123456789'' of
        None \<Rightarrow> None
      | Some d \<Rightarrow> digits_value (10 * acc + d) cs)"

definition dec_nat :: "string \<Rightarrow> nat option" where
  "dec_nat s = (if s = [] then None else digits_value 0 s)"

definition dec_int :: "string \<Rightarrow> int option" where
  "dec_int s =
     (case s of
        [] \<Rightarrow> None
      | c # cs \<Rightarrow>
          if c = CHR ''-'' then map_option (\<lambda>n. - int n) (dec_nat cs)
          else if c = CHR ''+'' then map_option int (dec_nat cs)
          else map_option int (dec_nat s))"

definition dec_float :: "string \<Rightarrow> real option" where
  "dec_float s = map_option real_of_int (dec_int s)"

definition decimal :: builtins where
  "decimal = \<lparr> py_float = dec_float, py_int = dec_int \<rparr>"

subsection \<open>Reading a field of a result\<close>

definition returned :: "('a \<Rightarrow> 'b) \<Rightarrow> error + 'a \<Rightarrow> 'b option" where
  "returned f r = (case r of Inl e \<Rightarrow> None | Inr a \<Rightarrow> Some (f a))"

subsection \<open>The attributes a reader assigns\<close>

text \<open>
  Each reader assigns a fixed set of attributes. \<open>RefVals_rest s\<close> is \<open>s\<close> with the
  attributes that \<^verbatim>\<open>__ReadRefVals\<close> assigns reset, so that
  \<open>RefVals_rest s' = RefVals_rest s\<close> says that \<open>s'\<close> and \<open>s\<close> agree on every other
  attribute; likewise for the other three readers.
\<close>

definition RefVals_rest :: "CFDppParser \<Rightarrow> CFDppParser" where
  "RefVals_rest s =
     s\<lparr>refPres := 0, refTemp := 0, refVels := [], refVmag := 0, refDens := 0, refMach := 0\<rparr>"

definition BcInfos_rest :: "CFDppParser \<Rightarrow> CFDppParser" where
  "BcInfos_rest s = s\<lparr>numBounds := 0, noSlipWalls := []\<rparr>"

definition RefGeom_rest :: "CFDppParser \<Rightarrow> CFDppParser" where
  "RefGeom_rest s =
     s\<lparr>alpha := 0, refArea := 0, refLength := 0, refOrign := [], SymmPlaneType := None,
       indexDrag := 0, indexLift := 0, indexSide := 0\<rparr>"

definition Forces_rest :: "CFDppParser \<Rightarrow> CFDppParser" where
  "Forces_rest s = s\<lparr>force_tol := [], force_inv := [], force_vis := [], moment := []\<rparr>"

text \<open>The four accumulated vectors of \<open>s'\<close> are as long as those of \<open>s\<close>.\<close>

definition same_lengths :: "CFDppParser \<Rightarrow> CFDppParser \<Rightarrow> bool" where
  "same_lengths s s' \<longleftrightarrow>
     length (force_tol s') = length (force_tol s) \<and> length (force_inv s') = length (force_inv s) \<and>
     length (force_vis s') = length (force_vis s) \<and> length (moment s') = length (moment s)"

subsection \<open>States of a parser object\<close>

text \<open>
  The states an object can be in: built by \<^verbatim>\<open>__init__\<close>, then changed by the four
  readers only (\<^verbatim>\<open>Process\<close> calls them in a fixed order; any order is admitted here),
  each time on some state of the case directory.
\<close>

inductive extracted :: "builtins \<Rightarrow> string \<Rightarrow> CFDppParser \<Rightarrow> bool" for B :: builtins and name :: string where
  constructed: "extracted B name (snd (init fs name))"
| after_RefVals: "extracted B name s \<Longrightarrow> ReadRefVals B fs s = Inr s' \<Longrightarrow> extracted B name s'"
| after_BcInfos: "extracted B name s \<Longrightarrow> ReadBcInfos B fs s = Inr s' \<Longrightarrow> extracted B name s'"
| after_RefGeomVals: "extracted B name s \<Longrightarrow> ReadRefGeomVals B fs s = Inr s' \<Longrightarrow> extracted B name s'"
| after_Forces: "extracted B name s \<Longrightarrow> ReadForces B fs s = Inr s' \<Longrightarrow> extracted B name s'"

text \<open>The axis assignment of a state, as (drag, lift, side).\<close>

definition axes :: "CFDppParser \<Rightarrow> int \<times> int \<times> int" where
  "axes s = (indexDrag s, indexLift s, indexSide s)"

text \<open>
  The lines that \<^verbatim>\<open>__ReadRefGeomVals\<close> reads: those of \<^verbatim>\<open>infout1f.out\<close> for a
  CL-driver case, of \<^verbatim>\<open>infout1f.inp\<close> otherwise; and the symmetry-plane tokens
  \<^verbatim>\<open>line.split()[1]\<close> of the lines that contain \<^verbatim>\<open>plane\<close>, in file order.
\<close>

definition geometry_lines :: "filesystem \<Rightarrow> CFDppParser \<Rightarrow> error + string list" where
  "geometry_lines fs self =
     ebind (IsClDriverCase fs self) (\<lambda>cl.
     guarded (readlines fs (if cl then infoutFileName self else infinFileName self)))"

definition plane_tokens :: "string list \<Rightarrow> string list" where
  "plane_tokens lines = map (\<lambda>line. str_split line ! 1) (filter (str_contains ''plane'') lines)"

text \<open>Two passes on one object.\<close>

definition Process_twice :: "builtins \<Rightarrow> filesystem \<Rightarrow> CFDppParser \<Rightarrow> error + CFDppParser" where
  "Process_twice B fs self = ebind (Process B fs self) (Process B fs)"

section \<open>Example case directories\<close>

text \<open>A case \<^verbatim>\<open>c\<close> with a run log and a geometry input file, but no report file.\<close>

definition sample_log :: "string list" where
  "sample_log =
     [''aero_pres = 101325\<newline>'',
      ''aero_temp = 288\<newline>'',
      ''aero_u = 10\<newline>'',
      ''mbcons = 1\<newline>'',
      ''bc 1 WALL\<newline>'',
      ''type\<newline>'',
      ''# No-slip adiabatic wall\<newline>'']"

definition sample_inp :: "string list" where
  "sample_inp = [''alpha 0\<newline>'', ''axref 1\<newline>'', ''plane xy\<newline>'']"

definition missing_report_case :: filesystem where
  "missing_report_case =
     [''c'' \<mapsto> Directory, ''c/c.log'' \<mapsto> File sample_log,
      ''c/infout1f.inp'' \<mapsto> File sample_inp]"

text \<open>A run log whose first line is the no-slip marker.\<close>

definition marker_first_log :: "string list" where
  "marker_first_log =
     [''# No-slip adiabatic wall\<newline>'',
      ''mbcons = 1\<newline>'',
      ''bc 7 x\<newline>'',
      ''end 9 y\<newline>'']"

definition marker_first_case :: filesystem where
  "marker_first_case = [''c'' \<mapsto> Directory, ''c/c.log'' \<mapsto> File marker_first_log]"

text \<open>A report file of ten lines, fewer than the 23 lines of one boundary block.\<close>

definition short_report :: "string list" where
  "short_report =
     [''r0 = 1 2 3\<newline>'', ''r1 = 11 12 13\<newline>'', ''r2 = 21 22 23\<newline>'',
      ''r3 = 31 32 33\<newline>'', ''r4 = 41 42 43\<newline>'', ''r5 = 51 52 53\<newline>'',
      ''r6 = 61 62 63\<newline>'', ''r7 = 71 72 73\<newline>'', ''r8 = 81 82 83\<newline>'',
      ''r9 = 91 92 93\<newline>'']"

definition short_report_case :: filesystem where
  "short_report_case = [''c'' \<mapsto> Directory, ''c/mcfd.info1'' \<mapsto> File short_report]"

text \<open>
  The same case with a report file of 23 lines for its one boundary; the reader takes the
  lines 4 to 9 of the file.
\<close>

definition sample_report :: "string list" where
  "sample_report =
     [''l0\<newline>'', ''l1\<newline>'', ''l2\<newline>'', ''l3\<newline>'',
      ''Fx = 10 8 2\<newline>'', ''Fy = 4 3 1\<newline>'', ''Fz = 2 2 0\<newline>'',
      ''Mx = 0\<newline>'', ''My = 0\<newline>'', ''Mz = 5\<newline>'',
      ''l10\<newline>'', ''l11\<newline>'', ''l12\<newline>'', ''l13\<newline>'', ''l14\<newline>'',
      ''l15\<newline>'', ''l16\<newline>'', ''l17\<newline>'', ''l18\<newline>'', ''l19\<newline>'',
      ''l20\<newline>'', ''l21\<newline>'', ''l22\<newline>'']"

definition sample_case :: filesystem where
  "sample_case = missing_report_case(''c/mcfd.info1'' \<mapsto> File sample_report)"

text \<open>The state of a new parser of \<open>sample_case\<close> after one pass.\<close>

definition sample_result :: CFDppParser where
  "sample_result =
     (new_parser ''c'')\<lparr>refPres := 101325, refTemp := 288, refVels := [10, 0, 0],
        refVmag := 10, refDens := 101325 / 287 / 288,
        refMach := 10 / sqrt (14 / 10 * 287 * 288),
        numBounds := 1, noSlipWalls := [1],
        alpha := 0, refArea := 1, SymmPlaneType := Some xyPlane,
        indexDrag := 0, indexLift := 1, indexSide := 2,
        force_tol := [10, 4, 2], force_inv := [8, 3, 2], force_vis := [2, 1, 0],
        moment := [0, 0, 5]\<rparr>"

text \<open>The state of a new parser of \<open>sample_case\<close> after the reference-value reader.\<close>

definition sample_refvals :: CFDppParser where
  "sample_refvals =
     (new_parser ''c'')\<lparr>refPres := 101325, refTemp := 288, refVels := [10, 0, 0],
        refVmag := 10, refDens := 101325 / 287 / 288,
        refMach := 10 / sqrt (14 / 10 * 287 * 288)\<rparr>"

text \<open>The state of a new parser of \<open>sample_case\<close> after the geometry reader alone.\<close>

definition sample_geometry :: CFDppParser where
  "sample_geometry =
     (new_parser ''c'')\<lparr>alpha := 0, refArea := 1, SymmPlaneType := Some xyPlane,
        indexDrag := 0, indexLift := 1, indexSide := 2\<rparr>"

text \<open>
  A case whose one boundary is not a no-slip wall: the log of \<open>sample_case\<close> without the
  marker line, and the same report file.
\<close>

definition slip_log :: "string list" where
  "slip_log =
     [''aero_pres = 101325\<newline>'',
      ''aero_temp = 288\<newline>'',
      ''aero_u = 10\<newline>'',
      ''mbcons = 1\<newline>'',
      ''bc 1 SYMMETRY\<newline>'']"

definition slip_case :: filesystem where
  "slip_case =
     [''c'' \<mapsto> Directory, ''c/c.log'' \<mapsto> File slip_log,
      ''c/infout1f.inp'' \<mapsto> File sample_inp, ''c/mcfd.info1'' \<mapsto> File sample_report]"

definition slip_result :: CFDppParser where
  "slip_result =
     (new_parser ''c'')\<lparr>refPres := 101325, refTemp := 288, refVels := [10, 0, 0],
        refVmag := 10, refDens := 101325 / 287 / 288,
        refMach := 10 / sqrt (14 / 10 * 287 * 288),
        numBounds := 1, noSlipWalls := [],
        alpha := 0, refArea := 1, SymmPlaneType := Some xyPlane,
        indexDrag := 0, indexLift := 1, indexSide := 2\<rparr>"

text \<open>A run log with no temperature line.\<close>

definition no_temp_log :: "string list" where
  "no_temp_log = [''aero_pres = 101325\<newline>'', ''aero_u = 10\<newline>'']"

definition no_temp_case :: filesystem where
  "no_temp_case = [''c'' \<mapsto> Directory, ''c/c.log'' \<mapsto> File no_temp_log]"

text \<open>The state of a new parser of \<open>sample_case\<close> after two passes.\<close>

definition sample_result2 :: CFDppParser where
  "sample_result2 =
     sample_result\<lparr>refVmag := sqrt 110, refMach := sqrt 110 / sqrt (14 / 10 * 287 * 288),
        noSlipWalls := [1, 1],
        force_tol := [20, 8, 4], force_inv := [16, 6, 4], force_vis := [4, 2, 0],
        moment := [0, 0, 10]\<rparr>"

section \<open>Properties\<close>

subsection \<open>Evaluation on example files\<close>

lemmas eval_defs = set_refPres_def set_refTemp_def set_refVel_def set_alpha_def set_refArea_def
  set_refLength_def set_refOrign_def set_plane_def readlines_def guarded_def match3_def str_split_def isspace_def field_def
  float_field_def float_cell_def to_float_def to_int_def py_index_def py_setitem_def py_iadd_def
  decimal_def dec_float_def dec_int_def dec_nat_def new_parser_def returned_def

lemma sample_Validate:
  "Validate missing_report_case (new_parser ''c'') = (False, [''File not Found:c/mcfd.info1''])"
  by (simp add: Validate_def missing_report_case_def path_exists_def new_parser_def)

lemma sample_ReadRefVals:
  "ReadRefVals decimal missing_report_case (new_parser ''c'') =
     Inr ((new_parser ''c'')\<lparr>refPres := 101325, refTemp := 288, refVels := [10, 0, 0],
            refVmag := 10, refDens := 101325 / 287 / 288,
            refMach := 10 / sqrt (14 / 10 * 287 * 288)\<rparr>)"
  by (simp add: ReadRefVals_def RefVals_line_def RefVals_derive_def missing_report_case_def
      sample_log_def py_sqrt_def py_div_def const_R_def const_gamma_def eval_defs)

lemma new_parser_sel [simp]:
  "caseName (new_parser n) = n"
  "logFileName (new_parser n) = n @ ''/'' @ n @ ''.log''"
  "info1FileName (new_parser n) = n @ ''/mcfd.info1''"
  "infinFileName (new_parser n) = n @ ''/infout1f.inp''"
  "infoutFileName (new_parser n) = n @ ''/infout1f.out''"
  "symmPlane (new_parser n) = none"
  "indexLift (new_parser n) = - 99"
  "indexDrag (new_parser n) = - 99"
  "indexSide (new_parser n) = - 99"
  "refPres (new_parser n) = 0"
  "refTemp (new_parser n) = 0"
  "refVels (new_parser n) = [0, 0, 0]"
  "refVmag (new_parser n) = 0"
  "numBounds (new_parser n) = 0"
  "noSlipWalls (new_parser n) = []"
  "refOrign (new_parser n) = [0, 0, 0]"
  "force_tol (new_parser n) = [0, 0, 0]"
  "force_inv (new_parser n) = [0, 0, 0]"
  "force_vis (new_parser n) = [0, 0, 0]"
  "moment (new_parser n) = [0, 0, 0]"
  "SymmPlaneType (new_parser n) = None"
  by (simp_all add: new_parser_def)

lemma sample_ReadBcInfos:
  "logFileName p = ''c/c.log'' \<Longrightarrow>
   ReadBcInfos decimal missing_report_case p =
     Inr (p\<lparr>numBounds := 1, noSlipWalls := noSlipWalls p @ [1]\<rparr>)"
  by (simp add: ReadBcInfos_def NoSlip_line_def list_index_def clamp_bound_def
      missing_report_case_def sample_log_def readlines_def guarded_def match3_def str_split_def
      isspace_def field_def to_int_def py_index_def decimal_def dec_int_def dec_nat_def)

lemma sample_ReadRefGeomVals:
  "logFileName p = ''c/c.log'' \<Longrightarrow> infinFileName p = ''c/infout1f.inp'' \<Longrightarrow>
   ReadRefGeomVals decimal missing_report_case p =
     Inr (p\<lparr>alpha := 0, refArea := 1, SymmPlaneType := Some xyPlane,
            indexDrag := 0, indexLift := 1, indexSide := 2\<rparr>)"
  by (simp add: ReadRefGeomVals_def IsClDriverCase_def RefGeom_line_def missing_report_case_def
      sample_log_def sample_inp_def eval_defs)

lemma sample_ReadForces:
  "info1FileName p = ''c/mcfd.info1'' \<Longrightarrow>
   ReadForces decimal missing_report_case p = Inl (Exited FileNotFoundError)"
  by (simp add: ReadForces_def missing_report_case_def readlines_def guarded_def)

lemma sample_case_log [simp]: "sample_case ''c/c.log'' = Some (File sample_log)"
  and sample_case_inp [simp]: "sample_case ''c/infout1f.inp'' = Some (File sample_inp)"
  and sample_case_report [simp]: "sample_case ''c/mcfd.info1'' = Some (File sample_report)"
  by (simp_all add: sample_case_def missing_report_case_def)

lemma sample_case_ReadRefVals:
  "ReadRefVals decimal sample_case (new_parser ''c'') =
     Inr ((new_parser ''c'')\<lparr>refPres := 101325, refTemp := 288, refVels := [10, 0, 0],
            refVmag := 10, refDens := 101325 / 287 / 288,
            refMach := 10 / sqrt (14 / 10 * 287 * 288)\<rparr>)"
  by (simp add: ReadRefVals_def RefVals_line_def RefVals_derive_def
      sample_log_def py_sqrt_def py_div_def const_R_def const_gamma_def eval_defs)

lemma sample_case_ReadBcInfos:
  "logFileName p = ''c/c.log'' \<Longrightarrow>
   ReadBcInfos decimal sample_case p =
     Inr (p\<lparr>numBounds := 1, noSlipWalls := noSlipWalls p @ [1]\<rparr>)"
  by (simp add: ReadBcInfos_def NoSlip_line_def list_index_def clamp_bound_def
      sample_log_def readlines_def guarded_def match3_def str_split_def
      isspace_def field_def to_int_def py_index_def decimal_def dec_int_def dec_nat_def)

lemma sample_case_ReadRefGeomVals:
  "logFileName p = ''c/c.log'' \<Longrightarrow> infinFileName p = ''c/infout1f.inp'' \<Longrightarrow>
   ReadRefGeomVals decimal sample_case p =
     Inr (p\<lparr>alpha := 0, refArea := 1, SymmPlaneType := Some xyPlane,
            indexDrag := 0, indexLift := 1, indexSide := 2\<rparr>)"
  by (simp add: ReadRefGeomVals_def IsClDriverCase_def RefGeom_line_def 
      sample_log_def sample_inp_def eval_defs)

lemma sample_case_ReadForces:
  "info1FileName p = ''c/mcfd.info1'' \<Longrightarrow> numBounds p = 1 \<Longrightarrow> 1 \<in> set (noSlipWalls p) \<Longrightarrow>
   force_tol p = [a0, a1, a2] \<Longrightarrow> force_inv p = [b0, b1, b2] \<Longrightarrow> force_vis p = [c0, c1, c2] \<Longrightarrow>
   moment p = [m0, m1, m2] \<Longrightarrow>
   ReadForces decimal sample_case p =
     Inr (p\<lparr>force_tol := [a0 + 10, a1 + 4, a2 + 2], force_inv := [b0 + 8, b1 + 3, b2 + 2],
            force_vis := [c0 + 2, c1 + 1, c2 + 0], moment := [m0 + 0, m1 + 0, m2 + 5]\<rparr>)"
  by (simp add: ReadForces_def sample_report_def Forces_step_def
      Forces_block_def add_tol_def add_inv_def add_vis_def add_moment_def py_range_def eval_defs)

lemma sample_case_Process:
  "Process decimal sample_case (new_parser ''c'') = Inr sample_result"
  by (simp add: Process_def sample_case_ReadRefVals sample_case_ReadBcInfos
      sample_case_ReadRefGeomVals sample_case_ReadForces sample_result_def)

subsection \<open>Case validation\<close>

text \<open>
  Claim C1 says that construction fails when the run log, the report file or both geometry
  files are absent, and that nothing is read after the failed check. In the case directory
  \<open>missing_report_case\<close> the report file \<^verbatim>\<open>c/mcfd.info1\<close> is absent: \<^verbatim>\<open>__Validate\<close>
  returns \<open>False\<close> and prints the path, but \<^verbatim>\<open>__init__\<close> drops the flag and returns
  the object; \<^verbatim>\<open>Process\<close> then reads the reference values and the boundary list from
  the log, and stops only when \<^verbatim>\<open>__ReadForces\<close> fails to open the file.
\<close>

theorem validation_flag_is_dropped:
  "fst (Validate missing_report_case (new_parser ''c'')) = False \<and>
   init missing_report_case ''c'' = ([''File not Found:c/mcfd.info1''], new_parser ''c'') \<and>
   returned refPres
     (ReadRefVals decimal missing_report_case (snd (init missing_report_case ''c''))) =
     Some 101325 \<and>
   returned noSlipWalls
     (ebind (ReadRefVals decimal missing_report_case (snd (init missing_report_case ''c'')))
        (ReadBcInfos decimal missing_report_case)) = Some [1] \<and>
   Process decimal missing_report_case (snd (init missing_report_case ''c'')) =
     Inl (Exited FileNotFoundError)"
  by (simp add: init_def sample_Validate sample_ReadRefVals sample_ReadBcInfos
      sample_ReadRefGeomVals sample_ReadForces Process_def returned_def)

subsection \<open>Negative indices\<close>

text \<open>
  Claim C8 says that a no-slip marker on one of the first two lines of the log makes the
  boundary reader fail. With the marker on line 0 the reader evaluates \<^verbatim>\<open>lines[-2]\<close>,
  which Python resolves to the line before the last: the reader returns, with the
  boundary index 7 taken from the third line of the four.
\<close>

theorem marker_at_first_line_reads_from_file_end:
  "ReadBcInfos decimal marker_first_case (new_parser ''c'') =
     Inr ((new_parser ''c'')\<lparr>numBounds := 1, noSlipWalls := [7]\<rparr>)"
  by (simp add: ReadBcInfos_def marker_first_case_def marker_first_log_def NoSlip_line_def
      list_index_def clamp_bound_def eval_defs)

text \<open>
  Claim C9 says that a report file too short for the declared number of 23-line blocks
  makes the force reader fail. For the ten-line file \<open>short_report\<close> and one no-slip
  boundary, \<open>staIndex\<close> is \<open>10 - 23 + 1 = -12\<close>, and the reader evaluates
  \<^verbatim>\<open>lines[-9]\<close> to \<^verbatim>\<open>lines[-4]\<close>, that is the lines 1 to 6 of the file: it returns
  with the numbers of those lines as forces and moments.
\<close>

theorem short_report_read_wraps_around:
  "ReadForces decimal short_report_case
     ((new_parser ''c'')\<lparr>numBounds := 1, noSlipWalls := [1]\<rparr>) =
     Inr ((new_parser ''c'')\<lparr>numBounds := 1, noSlipWalls := [1],
            force_tol := [11, 21, 31], force_inv := [12, 22, 32], force_vis := [13, 23, 33],
            moment := [41, 51, 61]\<rparr>)"
  by (simp add: ReadForces_def short_report_case_def short_report_def Forces_step_def
      Forces_block_def add_tol_def add_inv_def add_vis_def add_moment_def py_range_def eval_defs)

subsection \<open>Sequencing\<close>

lemma ebind_Inr_iff: "ebind m f = Inr b \<longleftrightarrow> (\<exists>a. m = Inr a \<and> f a = Inr b)"
  by (cases m) simp_all

lemma guarded_Inr_iff: "guarded r = Inr a \<longleftrightarrow> r = Inr a"
  by (cases r) (simp_all add: guarded_def)

lemma uncaught_Inr_iff: "uncaught r = Inr a \<longleftrightarrow> r = Inr a"
  by (cases r) (simp_all add: uncaught_def)

text \<open>A property that every run of the loop body preserves holds after the loop.\<close>

lemma for_each_inv:
  assumes "for_each body xs s = Inr s'" and "P s"
    and "\<And>x a a1. x \<in> set xs \<Longrightarrow> P a \<Longrightarrow> body x a = Inr a1 \<Longrightarrow> P a1"
  shows "P s'"
  using assms
proof (induction xs arbitrary: s)
  case Nil
  then show ?case by simp
next
  case (Cons x xs)
  from Cons.prems(1) obtain a where a: "body x s = Inr a" and rest: "for_each body xs a = Inr s'"
    by (auto simp: ebind_Inr_iff)
  have "P a"
    by (rule Cons.prems(3)[of x s]) (simp_all add: Cons.prems(2) a)
  show ?case
  proof (rule Cons.IH[OF rest \<open>P a\<close>])
    fix y c c1
    assume "y \<in> set xs" "P c" "body y c = Inr c1"
    then show "P c1" using Cons.prems(3)[of y c c1] by simp
  qed
qed

subsection \<open>What each reader leaves unchanged\<close>

lemma RefVals_rest_eqD:
  assumes "RefVals_rest s' = RefVals_rest s"
  shows
    "caseName s' = caseName s" "logFileName s' = logFileName s"
    "info1FileName s' = info1FileName s" "infinFileName s' = infinFileName s"
    "infoutFileName s' = infoutFileName s" "symmPlane s' = symmPlane s"
    "indexLift s' = indexLift s" "indexDrag s' = indexDrag s" "indexSide s' = indexSide s"
    "numBounds s' = numBounds s" "noSlipWalls s' = noSlipWalls s" "alpha s' = alpha s"
    "refArea s' = refArea s" "refLength s' = refLength s" "refOrign s' = refOrign s"
    "force_tol s' = force_tol s" "force_inv s' = force_inv s" "force_vis s' = force_vis s"
    "moment s' = moment s" "div_moment s' = div_moment s"
    "xCenterOfPressure s' = xCenterOfPressure s" "idUpper s' = idUpper s"
    "idLower s' = idLower s" "SymmPlaneType s' = SymmPlaneType s"
  using assms by (cases s, cases s', simp add: RefVals_rest_def)+

lemma BcInfos_rest_eqD:
  assumes "BcInfos_rest s' = BcInfos_rest s"
  shows
    "caseName s' = caseName s" "logFileName s' = logFileName s"
    "info1FileName s' = info1FileName s" "infinFileName s' = infinFileName s"
    "infoutFileName s' = infoutFileName s" "symmPlane s' = symmPlane s"
    "indexLift s' = indexLift s" "indexDrag s' = indexDrag s" "indexSide s' = indexSide s"
    "refPres s' = refPres s" "refTemp s' = refTemp s" "refVels s' = refVels s"
    "refVmag s' = refVmag s" "refDens s' = refDens s" "refMach s' = refMach s"
    "alpha s' = alpha s" "refArea s' = refArea s" "refLength s' = refLength s"
    "refOrign s' = refOrign s" "force_tol s' = force_tol s" "force_inv s' = force_inv s"
    "force_vis s' = force_vis s" "moment s' = moment s" "div_moment s' = div_moment s"
    "xCenterOfPressure s' = xCenterOfPressure s" "idUpper s' = idUpper s"
    "idLower s' = idLower s" "SymmPlaneType s' = SymmPlaneType s"
  using assms by (cases s, cases s', simp add: BcInfos_rest_def)+

lemma RefGeom_rest_eqD:
  assumes "RefGeom_rest s' = RefGeom_rest s"
  shows
    "caseName s' = caseName s" "logFileName s' = logFileName s"
    "info1FileName s' = info1FileName s" "infinFileName s' = infinFileName s"
    "infoutFileName s' = infoutFileName s" "symmPlane s' = symmPlane s" "refPres s' = refPres s"
    "refTemp s' = refTemp s" "refVels s' = refVels s" "refVmag s' = refVmag s"
    "refDens s' = refDens s" "refMach s' = refMach s" "numBounds s' = numBounds s"
    "noSlipWalls s' = noSlipWalls s" "force_tol s' = force_tol s" "force_inv s' = force_inv s"
    "force_vis s' = force_vis s" "moment s' = moment s" "div_moment s' = div_moment s"
    "xCenterOfPressure s' = xCenterOfPressure s" "idUpper s' = idUpper s"
    "idLower s' = idLower s"
  using assms by (cases s, cases s', simp add: RefGeom_rest_def)+

lemma Forces_rest_eqD:
  assumes "Forces_rest s' = Forces_rest s"
  shows
    "caseName s' = caseName s" "logFileName s' = logFileName s"
    "info1FileName s' = info1FileName s" "infinFileName s' = infinFileName s"
    "infoutFileName s' = infoutFileName s" "symmPlane s' = symmPlane s"
    "indexLift s' = indexLift s" "indexDrag s' = indexDrag s" "indexSide s' = indexSide s"
    "refPres s' = refPres s" "refTemp s' = refTemp s" "refVels s' = refVels s"
    "refVmag s' = refVmag s" "refDens s' = refDens s" "refMach s' = refMach s"
    "numBounds s' = numBounds s" "noSlipWalls s' = noSlipWalls s" "alpha s' = alpha s"
    "refArea s' = refArea s" "refLength s' = refLength s" "refOrign s' = refOrign s"
    "div_moment s' = div_moment s" "xCenterOfPressure s' = xCenterOfPressure s"
    "idUpper s' = idUpper s" "idLower s' = idLower s" "SymmPlaneType s' = SymmPlaneType s"
  using assms by (cases s, cases s', simp add: Forces_rest_def)+


lemma RefVals_line_rest:
  assumes "RefVals_line B line s = Inr s'"
  shows "RefVals_rest s' = RefVals_rest s \<and> length (refVels s') = length (refVels s)"
proof (rule for_each_inv[OF assms[unfolded RefVals_line_def],
      where P = "\<lambda>a. RefVals_rest a = RefVals_rest s \<and> length (refVels a) = length (refVels s)"])
  show "RefVals_rest s = RefVals_rest s \<and> length (refVels s) = length (refVels s)"
    by simp
next
  fix stmt a a1
  assume "stmt \<in> set [set_refPres B line, set_refTemp B line, set_refVel ''aero_u'' 0 B line,
        set_refVel ''aero_v'' 1 B line, set_refVel ''aero_w'' 2 B line]"
    and "RefVals_rest a = RefVals_rest s \<and> length (refVels a) = length (refVels s)"
    and "stmt a = Inr a1"
  then show "RefVals_rest a1 = RefVals_rest s \<and> length (refVels a1) = length (refVels s)"
    by (auto simp: set_refPres_def set_refTemp_def set_refVel_def ebind_Inr_iff py_setitem_def
        RefVals_rest_def split: if_splits)
qed

lemma RefVals_scan_rest:
  assumes "for_each (RefVals_line B) lines s = Inr s'"
  shows "RefVals_rest s' = RefVals_rest s \<and> length (refVels s') = length (refVels s)"
  by (rule for_each_inv[OF assms,
      where P = "\<lambda>a. RefVals_rest a = RefVals_rest s \<and> length (refVels a) = length (refVels s)"])
     (auto dest: RefVals_line_rest)

lemma ReadRefVals_rest:
  assumes "ReadRefVals B fs s = Inr s'"
  shows "RefVals_rest s' = RefVals_rest s" and "length (refVels s') = length (refVels s)"
  using assms unfolding ReadRefVals_def RefVals_derive_def
  by (auto simp: guarded_Inr_iff ebind_Inr_iff RefVals_rest_def dest!: RefVals_scan_rest)

lemmas ReadRefVals_keeps = RefVals_rest_eqD[OF ReadRefVals_rest(1)]

lemma read_numBounds_rest:
  "read_numBounds B lines s = Inr s' \<Longrightarrow>
     BcInfos_rest s' = BcInfos_rest s \<and> noSlipWalls s' = noSlipWalls s"
  by (induction lines) (auto simp: ebind_Inr_iff BcInfos_rest_def split: if_splits)

lemma NoSlip_line_rest:
  assumes "NoSlip_line B lines line (k, s) = Inr (k', s')"
  shows "BcInfos_rest s' = BcInfos_rest s"
  using assms unfolding NoSlip_line_def
  by (auto simp: ebind_Inr_iff BcInfos_rest_def split: if_splits)

lemma NoSlip_loop_rest:
  assumes "for_each (NoSlip_line B lines) rest st = Inr st'"
  shows "BcInfos_rest (snd st') = BcInfos_rest (snd st)"
  by (rule for_each_inv[OF assms, where P = "\<lambda>a. BcInfos_rest (snd a) = BcInfos_rest (snd st)"])
     (auto dest: NoSlip_line_rest)

lemma ReadBcInfos_rest:
  assumes "ReadBcInfos B fs s = Inr s'"
  shows "BcInfos_rest s' = BcInfos_rest s"
  using assms unfolding ReadBcInfos_def
  by (auto simp: guarded_Inr_iff ebind_Inr_iff dest!: NoSlip_loop_rest read_numBounds_rest)

lemmas ReadBcInfos_keeps = BcInfos_rest_eqD[OF ReadBcInfos_rest]

lemma RefGeom_line_rest:
  assumes "RefGeom_line B line s = Inr s'"
  shows "RefGeom_rest s' = RefGeom_rest s \<and> length (refOrign s') = length (refOrign s)"
proof (rule for_each_inv[OF assms[unfolded RefGeom_line_def],
      where P = "\<lambda>a. RefGeom_rest a = RefGeom_rest s \<and> length (refOrign a) = length (refOrign s)"])
  show "RefGeom_rest s = RefGeom_rest s \<and> length (refOrign s) = length (refOrign s)"
    by simp
next
  fix stmt a a1
  assume "stmt \<in> set [set_alpha B line, set_refArea B line, set_refLength B line,
        set_refOrign ''xcen'' 0 B line, set_refOrign ''ycen'' 1 B line,
        set_refOrign ''zcen'' 2 B line, set_plane line]"
    and "RefGeom_rest a = RefGeom_rest s \<and> length (refOrign a) = length (refOrign s)"
    and "stmt a = Inr a1"
  then show "RefGeom_rest a1 = RefGeom_rest s \<and> length (refOrign a1) = length (refOrign s)"
    by (auto simp: set_alpha_def set_refArea_def set_refLength_def set_refOrign_def set_plane_def
        ebind_Inr_iff py_setitem_def RefGeom_rest_def split: if_splits)
qed

lemma ReadRefGeomVals_rest:
  assumes "ReadRefGeomVals B fs s = Inr s'"
  shows "RefGeom_rest s' = RefGeom_rest s" and "length (refOrign s') = length (refOrign s)"
proof -
  from assms obtain lines where "for_each (RefGeom_line B) lines s = Inr s'"
    unfolding ReadRefGeomVals_def by (auto simp: guarded_Inr_iff ebind_Inr_iff)
  then have "RefGeom_rest s' = RefGeom_rest s \<and> length (refOrign s') = length (refOrign s)"
    by (rule for_each_inv[where
          P = "\<lambda>a. RefGeom_rest a = RefGeom_rest s \<and> length (refOrign a) = length (refOrign s)"])
       (auto dest: RefGeom_line_rest)
  then show "RefGeom_rest s' = RefGeom_rest s" and "length (refOrign s') = length (refOrign s)"
    by simp_all
qed

lemmas ReadRefGeomVals_keeps = RefGeom_rest_eqD[OF ReadRefGeomVals_rest(1)]


lemma add_stmt_rest:
  assumes "stmt \<in> {add_tol B lines k i j, add_inv B lines k i j, add_vis B lines k i j,
                     add_moment B lines k i j}"
    and "stmt a = Inr a1"
  shows "Forces_rest a1 = Forces_rest a \<and> same_lengths a a1"
  using assms
  by (auto simp: add_tol_def add_inv_def add_vis_def add_moment_def ebind_Inr_iff py_iadd_def
      Forces_rest_def same_lengths_def split: if_splits)

lemma Forces_block_rest:
  assumes "Forces_block B lines blockIndex s = Inr s'"
  shows "Forces_rest s' = Forces_rest s \<and> same_lengths s s'"
proof (rule for_each_inv[OF assms[unfolded Forces_block_def],
      where P = "\<lambda>a. Forces_rest a = Forces_rest s \<and> same_lengths s a"])
  show "Forces_rest s = Forces_rest s \<and> same_lengths s s"
    by (simp add: same_lengths_def)
next
  fix stmt a a1
  assume "stmt \<in> set [add_tol B lines 0 (blockIndex + 3) 2, add_inv B lines 0 (blockIndex + 3) 3,
        add_vis B lines 0 (blockIndex + 3) 4, add_tol B lines 1 (blockIndex + 4) 2,
        add_inv B lines 1 (blockIndex + 4) 3, add_vis B lines 1 (blockIndex + 4) 4,
        add_tol B lines 2 (blockIndex + 5) 2, add_inv B lines 2 (blockIndex + 5) 3,
        add_vis B lines 2 (blockIndex + 5) 4, add_moment B lines 0 (blockIndex + 6) 2,
        add_moment B lines 1 (blockIndex + 7) 2, add_moment B lines 2 (blockIndex + 8) 2]"
    and P: "Forces_rest a = Forces_rest s \<and> same_lengths s a"
    and run: "stmt a = Inr a1"
  then obtain k i j where "stmt \<in> {add_tol B lines k i j, add_inv B lines k i j,
      add_vis B lines k i j, add_moment B lines k i j}"
    by auto
  from add_stmt_rest[OF this run] P
  show "Forces_rest a1 = Forces_rest s \<and> same_lengths s a1"
    by (simp add: same_lengths_def)
qed

lemma Forces_step_rest:
  assumes "Forces_step B lines sta ibc s = Inr s'"
  shows "Forces_rest s' = Forces_rest s \<and> same_lengths s s'"
  using assms unfolding Forces_step_def
  by (auto simp: Let_def same_lengths_def split: if_splits dest: Forces_block_rest)

lemma ReadForces_rest:
  assumes "ReadForces B fs s = Inr s'"
  shows "Forces_rest s' = Forces_rest s" and "same_lengths s s'"
proof -
  from assms obtain lines sta where
    "for_each (Forces_step B lines sta) (py_range (numBounds s)) s = Inr s'"
    unfolding ReadForces_def by (auto simp: guarded_Inr_iff ebind_Inr_iff Let_def)
  then have "Forces_rest s' = Forces_rest s \<and> same_lengths s s'"
  proof (rule for_each_inv[where P = "\<lambda>a. Forces_rest a = Forces_rest s \<and> same_lengths s a"])
    show "Forces_rest s = Forces_rest s \<and> same_lengths s s"
      by (simp add: same_lengths_def)
  next
    fix ibc a a1
    assume "Forces_rest a = Forces_rest s \<and> same_lengths s a"
      and "Forces_step B lines sta ibc a = Inr a1"
    then show "Forces_rest a1 = Forces_rest s \<and> same_lengths s a1"
      using Forces_step_rest[of B lines sta ibc a a1] by (simp add: same_lengths_def)
  qed
  then show "Forces_rest s' = Forces_rest s" and "same_lengths s s'"
    by simp_all
qed

lemmas ReadForces_keeps = Forces_rest_eqD[OF ReadForces_rest(1)]

text \<open>The four readers of one pass, named.\<close>

lemma Process_steps:
  assumes "Process B fs s = Inr s'"
  obtains s1 s2 s3 where "ReadRefVals B fs s = Inr s1" "ReadBcInfos B fs s1 = Inr s2"
    "ReadRefGeomVals B fs s2 = Inr s3" "ReadForces B fs s3 = Inr s'"
  using assms unfolding Process_def by (auto simp: ebind_Inr_iff)

subsection \<open>Coefficients\<close>

lemma entry_Inr:
  assumes "py_index force (indexLift s) = Inr fl" and "py_index force (indexDrag s) = Inr fd"
    and "coeff_div s \<noteq> 0"
  shows "lift_entry s force =
           Inr ((fl * cos (radians (alpha s)) - fd * sin (radians (alpha s))) / coeff_div s)"
    and "drag_entry s force =
           Inr ((fl * sin (radians (alpha s)) + fd * cos (radians (alpha s))) / coeff_div s)"
  using assms by (simp_all add: lift_entry_def drag_entry_def py_div_def)

text \<open>
  Claim C3: in a state where the lift-axis and drag-axis components of the three force
  vectors exist and \<open>q = 0.5 * density * magnitude\<^sup>2 * area\<close> is not zero,
  \<^verbatim>\<open>GetCoeffLift\<close> returns \<open>(force[lift] * cos a - force[drag] * sin a) / q\<close> and
  \<^verbatim>\<open>GetCoeffDrag\<close> returns \<open>(force[lift] * sin a + force[drag] * cos a) / q\<close> for the
  total, the inviscid and the viscous vector, \<open>a\<close> being the angle of attack in radians;
  at angle 0 they are \<open>force[lift] / q\<close> and \<open>force[drag] / q\<close>.
\<close>

theorem lift_drag_coefficients:
  assumes "py_index (force_tol s) (indexLift s) = Inr tL"
    and "py_index (force_tol s) (indexDrag s) = Inr tD"
    and "py_index (force_inv s) (indexLift s) = Inr iL"
    and "py_index (force_inv s) (indexDrag s) = Inr iD"
    and "py_index (force_vis s) (indexLift s) = Inr vL"
    and "py_index (force_vis s) (indexDrag s) = Inr vD"
    and "q = 0.5 * refDens s * (refVmag s)\<^sup>2 * refArea s" and "q \<noteq> 0"
    and "a = radians (alpha s)"
  shows "GetCoeffLift s = Inr [(tL * cos a - tD * sin a) / q,
                               (iL * cos a - iD * sin a) / q,
                               (vL * cos a - vD * sin a) / q] \<and>
         GetCoeffDrag s = Inr [(tL * sin a + tD * cos a) / q,
                               (iL * sin a + iD * cos a) / q,
                               (vL * sin a + vD * cos a) / q] \<and>
         (alpha s = 0 \<longrightarrow> GetCoeffLift s = Inr [tL / q, iL / q, vL / q] \<and>
                           GetCoeffDrag s = Inr [tD / q, iD / q, vD / q])"
proof -
  have "coeff_div s = q"
    unfolding coeff_div_def assms(7) by (simp add: power2_eq_square)
  with assms(8) have q: "coeff_div s = q" "coeff_div s \<noteq> 0"
    by simp_all
  have L: "GetCoeffLift s = Inr [(tL * cos a - tD * sin a) / q,
                               (iL * cos a - iD * sin a) / q,
                               (vL * cos a - vD * sin a) / q]"
    unfolding GetCoeffLift_def
    by (simp add: entry_Inr(1)[OF assms(1,2) q(2)] entry_Inr(1)[OF assms(3,4) q(2)]
        entry_Inr(1)[OF assms(5,6) q(2)] uncaught_def q(1) assms(9))
  have D: "GetCoeffDrag s = Inr [(tL * sin a + tD * cos a) / q,
                               (iL * sin a + iD * cos a) / q,
                               (vL * sin a + vD * cos a) / q]"
    unfolding GetCoeffDrag_def
    by (simp add: entry_Inr(2)[OF assms(1,2) q(2)] entry_Inr(2)[OF assms(3,4) q(2)]
        entry_Inr(2)[OF assms(5,6) q(2)] uncaught_def q(1) assms(9))
  have "alpha s = 0 \<Longrightarrow> a = 0"
    using assms(9) by (simp add: radians_def)
  with L D show ?thesis by auto
qed

theorem lift_drag_coefficients_witness:
  "py_index (force_tol sample_result) (indexLift sample_result) = Inr 4 \<and>
   py_index (force_tol sample_result) (indexDrag sample_result) = Inr 10 \<and>
   alpha sample_result = 0 \<and>
   GetCoeffLift sample_result =
     Inr [4 / (50 * (101325 / 287 / 288)), 3 / (50 * (101325 / 287 / 288)),
          1 / (50 * (101325 / 287 / 288))] \<and>
   GetCoeffDrag sample_result =
     Inr [10 / (50 * (101325 / 287 / 288)), 8 / (50 * (101325 / 287 / 288)),
          2 / (50 * (101325 / 287 / 288))]"
proof -
  have h: "py_index (force_tol sample_result) (indexLift sample_result) = Inr 4"
    "py_index (force_tol sample_result) (indexDrag sample_result) = Inr 10"
    "py_index (force_inv sample_result) (indexLift sample_result) = Inr 3"
    "py_index (force_inv sample_result) (indexDrag sample_result) = Inr 8"
    "py_index (force_vis sample_result) (indexLift sample_result) = Inr 1"
    "py_index (force_vis sample_result) (indexDrag sample_result) = Inr 2"
    "50 * (101325 / 287 / 288) = 0.5 * refDens sample_result * (refVmag sample_result)\<^sup>2
       * refArea sample_result"
    "50 * (101325 / 287 / 288) \<noteq> (0::real)"
    "0 = radians (alpha sample_result)" "alpha sample_result = 0"
    by (simp_all add: sample_result_def py_index_def radians_def)
  from lift_drag_coefficients[OF h(1-9)] h(1,2,10) show ?thesis
    by simp
qed

subsection \<open>Reference values\<close>

lemma RefVals_line_keeps_derived:
  assumes "RefVals_line B line s = Inr s'"
  shows "refVmag s' = refVmag s"
  by (rule for_each_inv[OF assms[unfolded RefVals_line_def], where P = "\<lambda>a. refVmag a = refVmag s"])
     (auto simp: set_refPres_def set_refTemp_def set_refVel_def ebind_Inr_iff split: if_splits)

lemma RefVals_scan_keeps_derived:
  assumes "for_each (RefVals_line B) lines s = Inr s'"
  shows "refVmag s' = refVmag s"
  by (rule for_each_inv[OF assms, where P = "\<lambda>a. refVmag a = refVmag s"])
     (auto dest: RefVals_line_keeps_derived)

lemma length3E:
  assumes "length xs = 3"
  obtains a b c where "xs = [a, b, c]"
  using assms by (auto simp: length_Suc_conv numeral_3_eq_3)

lemma RefVals_derive_Inr:
  assumes "RefVals_derive s1 = Inr s"
  shows "refPres s = refPres s1" "refTemp s = refTemp s1" "refVels s = refVels s1"
    "refTemp s1 \<noteq> 0" "0 \<le> refTemp s1"
    "refVmag s = sqrt (foldl (\<lambda>acc vel. acc + vel * vel) (refVmag s1) (refVels s1))"
    "refDens s = refPres s1 / const_R / refTemp s1"
    "refMach s = refVmag s / sqrt (const_gamma * const_R * refTemp s1)"
  using assms unfolding RefVals_derive_def
  by (auto simp: ebind_Inr_iff py_sqrt_def py_div_def const_R_def const_gamma_def
      split: if_splits simp: mult_less_0_iff not_less)

text \<open>
  Claim C5: when the reference-value reader returns on a new parser object, the density is
  \<open>pressure / (287 * temperature)\<close>, the velocity magnitude is the Euclidean norm of the
  three velocity components, and the Mach number is
  \<open>magnitude / sqrt (1.4 * 287 * temperature)\<close>: all three are computed from the pressure,
  the temperature and the velocity components that the state holds.
\<close>

theorem derived_reference_quantities:
  assumes "ReadRefVals B fs (snd (init fs name)) = Inr s"
  shows "refDens s = refPres s / (287 * refTemp s) \<and>
         refVmag s = sqrt ((refVels s ! 0)\<^sup>2 + (refVels s ! 1)\<^sup>2 + (refVels s ! 2)\<^sup>2) \<and>
         refMach s = refVmag s / sqrt (1.4 * 287 * refTemp s) \<and>
         length (refVels s) = 3"
proof -
  from assms obtain lines s1 where scan: "for_each (RefVals_line B) lines (new_parser name) = Inr s1"
    and derive: "RefVals_derive s1 = Inr s"
    unfolding ReadRefVals_def init_def by (auto simp: guarded_Inr_iff ebind_Inr_iff)
  note d = RefVals_derive_Inr[OF derive]
  have vmag: "refVmag s1 = 0"
    using RefVals_scan_keeps_derived[OF scan] by simp
  have "length (refVels s1) = 3"
    using RefVals_scan_rest[OF scan] by simp
  then obtain a b c where vels: "refVels s1 = [a, b, c]"
    by (rule length3E)
  have "refDens s = refPres s / (287 * refTemp s)"
    by (simp add: d const_R_def)
  moreover have "refVmag s = sqrt ((refVels s ! 0)\<^sup>2 + (refVels s ! 1)\<^sup>2 + (refVels s ! 2)\<^sup>2)"
    by (simp add: d vmag vels power2_eq_square)
  moreover have "refMach s = refVmag s / sqrt (1.4 * 287 * refTemp s)"
    by (simp add: d(2,8) const_R_def const_gamma_def)
  moreover have "length (refVels s) = 3"
    by (simp add: d vels)
  ultimately show ?thesis by simp
qed

theorem derived_reference_quantities_witness:
  "ReadRefVals decimal sample_case (snd (init sample_case ''c'')) = Inr sample_refvals \<and>
   refDens sample_refvals = refPres sample_refvals / (287 * refTemp sample_refvals) \<and>
   refVmag sample_refvals = sqrt ((refVels sample_refvals ! 0)\<^sup>2 +
     (refVels sample_refvals ! 1)\<^sup>2 + (refVels sample_refvals ! 2)\<^sup>2) \<and>
   refMach sample_refvals = refVmag sample_refvals / sqrt (1.4 * 287 * refTemp sample_refvals)"
proof -
  have h: "ReadRefVals decimal sample_case (snd (init sample_case ''c'')) = Inr sample_refvals"
    by (simp add: init_def sample_case_ReadRefVals sample_refvals_def)
  from derived_reference_quantities[OF h] h show ?thesis
    by simp
qed

subsection \<open>Axis assignment\<close>

lemma for_each_append:
  "for_each body (xs @ ys) s = ebind (for_each body xs s) (for_each body ys)"
  by (induction xs arbitrary: s) (simp_all, metis ebind.simps sum.exhaust_sel)

lemma RefGeom_line_plane:
  assumes "RefGeom_line B line s = Inr s'"
  obtains s6 where "axes s6 = axes s" "SymmPlaneType s6 = SymmPlaneType s"
    "set_plane line s6 = Inr s'"
proof -
  have "RefGeom_line B line s =
      for_each (\<lambda>stmt. stmt)
        ([set_alpha B line, set_refArea B line, set_refLength B line,
          set_refOrign ''xcen'' 0 B line, set_refOrign ''ycen'' 1 B line,
          set_refOrign ''zcen'' 2 B line] @ [set_plane line]) s"
    by (simp add: RefGeom_line_def)
  with assms obtain s6 where six: "for_each (\<lambda>stmt. stmt)
        [set_alpha B line, set_refArea B line, set_refLength B line,
          set_refOrign ''xcen'' 0 B line, set_refOrign ''ycen'' 1 B line,
          set_refOrign ''zcen'' 2 B line] s = Inr s6"
    and last: "set_plane line s6 = Inr s'"
    unfolding for_each_append by (auto simp: ebind_Inr_iff)
  have "axes s6 = axes s \<and> SymmPlaneType s6 = SymmPlaneType s"
    by (rule for_each_inv[OF six,
          where P = "\<lambda>a. axes a = axes s \<and> SymmPlaneType a = SymmPlaneType s"])
       (auto simp: set_alpha_def set_refArea_def set_refLength_def set_refOrign_def
          ebind_Inr_iff axes_def split: if_splits)
  then show ?thesis
    using last by (intro that[of s6]) simp_all
qed

lemma field_Inr_nth: "field line 1 = Inr tok \<Longrightarrow> tok = str_split line ! 1"
  by (auto simp: field_def py_index_def split: if_splits)

lemma set_plane_axes:
  assumes "set_plane line s = Inr s'"
  shows "(axes s', SymmPlaneType s') =
     (if str_contains ''plane'' line
      then (if str_split line ! 1 = ''xy'' then ((0, 1, 2), Some xyPlane)
            else ((0, 2, 1), Some xzPlane))
      else (axes s, SymmPlaneType s))"
proof (cases "str_contains ''plane'' line")
  case False
  with assms show ?thesis by (simp add: set_plane_def)
next
  case True
  with assms obtain tok where tok: "field line 1 = Inr tok"
    and s': "s' = (if tok = ''xy''
                   then s\<lparr>SymmPlaneType := Some xyPlane, indexDrag := 0, indexLift := 1, indexSide := 2\<rparr>
                   else s\<lparr>SymmPlaneType := Some xzPlane, indexDrag := 0, indexLift := 2, indexSide := 1\<rparr>)"
    unfolding set_plane_def by (cases "field line 1") (simp_all split: if_splits)
  from tok have "tok = str_split line ! 1"
    by (rule field_Inr_nth)
  with True s' show ?thesis
    by (simp add: axes_def)
qed

lemma RefGeom_line_axes:
  assumes "RefGeom_line B line s = Inr s'"
  shows "(axes s', SymmPlaneType s') =
     (if str_contains ''plane'' line
      then (if str_split line ! 1 = ''xy'' then ((0, 1, 2), Some xyPlane)
            else ((0, 2, 1), Some xzPlane))
      else (axes s, SymmPlaneType s))"
proof -
  from assms obtain s6 where s6: "axes s6 = axes s" "SymmPlaneType s6 = SymmPlaneType s"
    "set_plane line s6 = Inr s'"
    by (rule RefGeom_line_plane)
  from set_plane_axes[OF s6(3)] s6(1,2) show ?thesis
    by simp
qed

lemma RefGeom_scan_axes:
  assumes "for_each (RefGeom_line B) lines s = Inr s'"
  shows "(axes s', SymmPlaneType s') =
     (if plane_tokens lines = [] then (axes s, SymmPlaneType s)
      else if last (plane_tokens lines) = ''xy'' then ((0, 1, 2), Some xyPlane)
      else ((0, 2, 1), Some xzPlane))"
  using assms
proof (induction lines arbitrary: s)
  case Nil
  then show ?case by (simp add: plane_tokens_def)
next
  case (Cons line lines)
  from Cons.prems obtain s1 where s1: "RefGeom_line B line s = Inr s1"
    and rest: "for_each (RefGeom_line B) lines s1 = Inr s'"
    by (auto simp: ebind_Inr_iff)
  note IH = Cons.IH[OF rest] and L = RefGeom_line_axes[OF s1]
  show ?case
  proof (cases "plane_tokens lines = []")
    case True
    with IH L show ?thesis by (auto simp: plane_tokens_def)
  next
    case False
    then have "plane_tokens (line # lines) \<noteq> []"
      and "last (plane_tokens (line # lines)) = last (plane_tokens lines)"
      by (auto simp: plane_tokens_def)
    with IH False show ?thesis by simp
  qed
qed

lemma ReadRefGeomVals_lines:
  assumes "ReadRefGeomVals B fs s = Inr s'"
  obtains lines where "geometry_lines fs s = Inr lines"
    "for_each (RefGeom_line B) lines s = Inr s'"
  using assms unfolding ReadRefGeomVals_def geometry_lines_def
  by (auto simp: guarded_Inr_iff ebind_Inr_iff)

lemma init_object [simp]: "snd (init fs name) = new_parser name"
  by (simp add: init_def)

text \<open>What holds in every state of a parser object.\<close>

lemma extracted_inv:
  assumes "extracted B name s"
  shows "(axes s = (- 99, - 99, - 99) \<or> axes s = (0, 1, 2) \<or> axes s = (0, 2, 1)) \<and>
         length (force_tol s) = 3 \<and> length (force_inv s) = 3 \<and> length (force_vis s) = 3 \<and>
         length (moment s) = 3 \<and> length (refOrign s) = 3 \<and> length (refVels s) = 3 \<and>
         symmPlane s = none"
  using assms
proof (induction rule: extracted.induct)
  case (constructed fs)
  show ?case by (simp add: axes_def)
next
  case (after_RefVals s fs s')
  then show ?case
    by (simp add: axes_def ReadRefVals_keeps[OF after_RefVals(2)] ReadRefVals_rest(2)[OF after_RefVals(2)])
next
  case (after_BcInfos s fs s')
  then show ?case
    by (simp add: axes_def ReadBcInfos_keeps[OF after_BcInfos(2)])
next
  case (after_RefGeomVals s fs s')
  from after_RefGeomVals(2) obtain lines where "for_each (RefGeom_line B) lines s = Inr s'"
    by (rule ReadRefGeomVals_lines)
  from RefGeom_scan_axes[OF this]
  have "axes s' = axes s \<or> axes s' = (0, 1, 2) \<or> axes s' = (0, 2, 1)"
    by (auto split: if_splits)
  with after_RefGeomVals(3) show ?case
    by (auto simp: ReadRefGeomVals_keeps[OF after_RefGeomVals(2)]
        ReadRefGeomVals_rest(2)[OF after_RefGeomVals(2)])
next
  case (after_Forces s fs s')
  then show ?case
    using ReadForces_rest(2)[OF after_Forces(2)]
    by (simp add: axes_def ReadForces_keeps[OF after_Forces(2)] same_lengths_def)
qed

lemma default_axes_no_coefficient:
  assumes "length (force_tol s) = 3" and "length (moment s) = 3" and "indexLift s = - 99"
    and "indexSide s = - 99"
  shows "GetCoeffLift s = Inl (Raised IndexError)" "GetCoeffDrag s = Inl (Raised IndexError)"
    "GetCoeffMoment s = Inl (Raised IndexError)" "GetCenterOfPressure s = Inl (Raised IndexError)"
  using assms
  by (simp_all add: GetCoeffLift_def GetCoeffDrag_def GetCoeffMoment_def GetCenterOfPressure_def
      lift_entry_def drag_entry_def py_index_def uncaught_def)

lemma extracted_Process:
  assumes "extracted B name s" and "Process B fs s = Inr s'"
  shows "extracted B name s'"
proof -
  from assms(2) obtain s1 s2 s3 where h: "ReadRefVals B fs s = Inr s1"
    "ReadBcInfos B fs s1 = Inr s2" "ReadRefGeomVals B fs s2 = Inr s3" "ReadForces B fs s3 = Inr s'"
    by (rule Process_steps)
  from assms(1) h(1) have "extracted B name s1"
    by (rule extracted.after_RefVals)
  from this h(2) have "extracted B name s2"
    by (rule extracted.after_BcInfos)
  from this h(3) have "extracted B name s3"
    by (rule extracted.after_RefGeomVals)
  from this h(4) show ?thesis
    by (rule extracted.after_Forces)
qed


text \<open>
  Claim C4: in every state of a parser object the axis assignment (drag, lift, side) is the
  construction default \<open>(-99, -99, -99)\<close>, \<open>(0, 1, 2)\<close> or \<open>(0, 2, 1)\<close>; whenever a
  coefficient method returns a value it is one of the two last; and the geometry reader
  sets it from the symmetry-plane token of the last line that contains \<^verbatim>\<open>plane\<close>:
  \<open>(0, 1, 2)\<close> for the token \<^verbatim>\<open>xy\<close>, \<open>(0, 2, 1)\<close> for any other token, unchanged
  when no line contains \<^verbatim>\<open>plane\<close>.
\<close>

theorem axis_assignment:
  assumes "extracted B name s"
  shows "(axes s = (- 99, - 99, - 99) \<or> axes s = (0, 1, 2) \<or> axes s = (0, 2, 1)) \<and>
         ((\<exists>c. GetCoeffLift s = Inr c) \<or> (\<exists>c. GetCoeffDrag s = Inr c) \<or>
          (\<exists>c. GetCoeffMoment s = Inr c) \<or> (\<exists>c. GetCenterOfPressure s = Inr c)
            \<longrightarrow> axes s = (0, 1, 2) \<or> axes s = (0, 2, 1)) \<and>
         (\<forall>fs s'. ReadRefGeomVals B fs s = Inr s' \<longrightarrow>
            (\<exists>lines. geometry_lines fs s = Inr lines \<and>
               axes s' = (if plane_tokens lines = [] then axes s
                          else if last (plane_tokens lines) = ''xy'' then (0, 1, 2)
                          else (0, 2, 1))))"
proof -
  note inv = extracted_inv[OF assms]
  have A: "axes s = (- 99, - 99, - 99) \<or> axes s = (0, 1, 2) \<or> axes s = (0, 2, 1)"
    using inv by simp
  have B: "axes s = (0, 1, 2) \<or> axes s = (0, 2, 1)"
    if "(\<exists>c. GetCoeffLift s = Inr c) \<or> (\<exists>c. GetCoeffDrag s = Inr c) \<or>
        (\<exists>c. GetCoeffMoment s = Inr c) \<or> (\<exists>c. GetCenterOfPressure s = Inr c)"
  proof (rule ccontr)
    assume "\<not> (axes s = (0, 1, 2) \<or> axes s = (0, 2, 1))"
    with A have "indexLift s = - 99" "indexSide s = - 99"
      by (auto simp: axes_def)
    from default_axes_no_coefficient[OF _ _ this] inv that show False
      by simp
  qed
  have C: "\<exists>lines. geometry_lines fs s = Inr lines \<and>
               axes s' = (if plane_tokens lines = [] then axes s
                          else if last (plane_tokens lines) = ''xy'' then (0, 1, 2)
                          else (0, 2, 1))"
    if "ReadRefGeomVals B fs s = Inr s'" for fs s'
  proof -
    from that obtain lines where lines: "geometry_lines fs s = Inr lines"
      "for_each (RefGeom_line B) lines s = Inr s'"
      by (rule ReadRefGeomVals_lines)
    from RefGeom_scan_axes[OF lines(2)]
    have "axes s' = (if plane_tokens lines = [] then axes s
                          else if last (plane_tokens lines) = ''xy'' then (0, 1, 2)
                          else (0, 2, 1))"
      by (simp split: if_splits)
    with lines(1) show ?thesis by blast
  qed
  from A B C show ?thesis by blast
qed

lemma sample_result_extracted: "extracted decimal ''c'' sample_result"
proof -
  have "extracted decimal ''c'' (snd (init sample_case ''c''))"
    by (rule extracted.constructed)
  moreover have "Process decimal sample_case (snd (init sample_case ''c'')) = Inr sample_result"
    by (simp add: sample_case_Process)
  ultimately show ?thesis
    by (rule extracted_Process)
qed

lemma sample_result_GetCoeffLift:
  "GetCoeffLift sample_result =
     Inr [4 / (50 * (101325 / 287 / 288)), 3 / (50 * (101325 / 287 / 288)),
          1 / (50 * (101325 / 287 / 288))]"
  by (simp add: GetCoeffLift_def lift_entry_def coeff_div_def py_index_def py_div_def
      uncaught_def radians_def sample_result_def)

lemma sample_result_ReadRefGeomVals:
  "ReadRefGeomVals decimal sample_case sample_result = Inr sample_result"
  by (simp add: sample_case_ReadRefGeomVals sample_result_def)

lemma sample_geometry_lines:
  "logFileName p = ''c/c.log'' \<Longrightarrow> infinFileName p = ''c/infout1f.inp'' \<Longrightarrow>
   geometry_lines sample_case p = Inr sample_inp"
  by (simp add: geometry_lines_def IsClDriverCase_def readlines_def guarded_def sample_log_def)

lemma sample_plane_tokens: "plane_tokens sample_inp = [''xy'']"
  by (simp add: plane_tokens_def sample_inp_def str_split_def isspace_def)

theorem axis_assignment_witness:
  "extracted decimal ''c'' sample_result \<and>
   GetCoeffLift sample_result =
     Inr [4 / (50 * (101325 / 287 / 288)), 3 / (50 * (101325 / 287 / 288)),
          1 / (50 * (101325 / 287 / 288))] \<and>
   axes sample_result = (0, 1, 2) \<and>
   ReadRefGeomVals decimal sample_case sample_result = Inr sample_result \<and>
   geometry_lines sample_case sample_result = Inr sample_inp \<and>
   last (plane_tokens sample_inp) = ''xy''"
proof -
  note T = axis_assignment[OF sample_result_extracted]
  from T sample_result_GetCoeffLift
  have "axes sample_result = (0, 1, 2) \<or> axes sample_result = (0, 2, 1)"
    by blast
  then have "axes sample_result = (0, 1, 2)"
    by (simp add: axes_def sample_result_def)
  moreover have "geometry_lines sample_case sample_result = Inr sample_inp"
    by (simp add: sample_geometry_lines sample_result_def)
  ultimately show ?thesis
    using T sample_result_extracted sample_result_GetCoeffLift sample_result_ReadRefGeomVals
    by (simp add: sample_plane_tokens)
qed

subsection \<open>The attribute \<^verbatim>\<open>symmPlane\<close>\<close>

text \<open>
  Claim C10: in every state of a parser object \<open>symmPlane\<close> is the construction default
  \<open>none\<close>, also after the geometry reader has run: the reader stores the orientation of
  the last \<^verbatim>\<open>plane\<close> line in the attribute \<open>SymmPlaneType\<close>, and changes nothing but
  the attributes that \<open>RefGeom_rest\<close> resets (angle, reference area, length and origin,
  \<open>SymmPlaneType\<close> and the three axis indices).
\<close>

theorem symmPlane_is_never_assigned:
  assumes "extracted B name s" and "ReadRefGeomVals B fs s = Inr s'"
  shows "symmPlane s = none \<and> symmPlane s' = none \<and> RefGeom_rest s' = RefGeom_rest s \<and>
         (\<exists>lines. geometry_lines fs s = Inr lines \<and>
            SymmPlaneType s' =
              (if plane_tokens lines = [] then SymmPlaneType s
               else if last (plane_tokens lines) = ''xy'' then Some xyPlane
               else Some xzPlane))"
proof -
  have "symmPlane s = none"
    using extracted_inv[OF assms(1)] by simp
  moreover have "symmPlane s' = symmPlane s"
    by (rule ReadRefGeomVals_keeps[OF assms(2)])
  moreover have "RefGeom_rest s' = RefGeom_rest s"
    by (rule ReadRefGeomVals_rest(1)[OF assms(2)])
  moreover from assms(2) obtain lines where lines: "geometry_lines fs s = Inr lines"
    "for_each (RefGeom_line B) lines s = Inr s'"
    by (rule ReadRefGeomVals_lines)
  from RefGeom_scan_axes[OF lines(2)]
  have "SymmPlaneType s' =
              (if plane_tokens lines = [] then SymmPlaneType s
               else if last (plane_tokens lines) = ''xy'' then Some xyPlane
               else Some xzPlane)"
    by (simp split: if_splits)
  ultimately show ?thesis
    using lines(1) by auto
qed

theorem symmPlane_is_never_assigned_witness:
  "extracted decimal ''c'' (new_parser ''c'') \<and>
   ReadRefGeomVals decimal sample_case (new_parser ''c'') = Inr sample_geometry \<and>
   symmPlane sample_geometry = none \<and> SymmPlaneType sample_geometry = Some xyPlane"
proof -
  have e: "extracted decimal ''c'' (new_parser ''c'')"
    using extracted.constructed[of decimal "''c''" sample_case] by simp
  have g: "ReadRefGeomVals decimal sample_case (new_parser ''c'') = Inr sample_geometry"
    by (simp add: sample_case_ReadRefGeomVals sample_geometry_def)
  from symmPlane_is_never_assigned[OF e g] e g show ?thesis
    by (simp add: sample_geometry_def)
qed

subsection \<open>Force and moment accumulation\<close>

lemma Forces_block_noSlipWalls:
  assumes "Forces_block B lines blockIndex s = Inr s'"
  shows "noSlipWalls s' = noSlipWalls s"
  by (rule Forces_rest_eqD) (simp add: Forces_block_rest[OF assms])

lemma Forces_step_eq:
  "Forces_step B lines sta ibc s =
     (if ibc + 1 \<in> set (noSlipWalls s) then Forces_block B lines (sta + ibc * 23) s else Inr s)"
  by (simp add: Forces_step_def)

text \<open>The loop over all boundaries runs the block of the no-slip boundaries only.\<close>

lemma Forces_loop_filter:
  "for_each (Forces_step B lines sta) ibcs s =
   for_each (\<lambda>ibc. Forces_block B lines (sta + ibc * 23))
     (filter (\<lambda>ibc. ibc + 1 \<in> set (noSlipWalls s)) ibcs) s"
proof (induction ibcs arbitrary: s)
  case Nil
  show ?case by simp
next
  case (Cons ibc ibcs)
  show ?case
  proof (cases "ibc + 1 \<in> set (noSlipWalls s)")
    case False
    then have "for_each (Forces_step B lines sta) (ibc # ibcs) s =
        for_each (Forces_step B lines sta) ibcs s"
      by (simp add: Forces_step_eq)
    with False show ?thesis
      by (simp add: Cons.IH)
  next
    case True
    show ?thesis
    proof (cases "Forces_block B lines (sta + ibc * 23) s")
      case (Inl e)
      with True show ?thesis by (simp add: Forces_step_eq)
    next
      case (Inr s1)
      then have "noSlipWalls s1 = noSlipWalls s"
        by (rule Forces_block_noSlipWalls)
      with True Inr Cons.IH[of s1] show ?thesis
        by (simp add: Forces_step_eq)
    qed
  qed
qed

lemma py_range_no_wall:
  assumes "set walls \<inter> {1..n} = {}"
  shows "filter (\<lambda>ibc. ibc + 1 \<in> set walls) (py_range n) = []"
proof -
  have "ibc + 1 \<notin> set walls" if "ibc \<in> set (py_range n)" for ibc
  proof -
    from that have "ibc + 1 \<in> {1..n}"
      by (auto simp: py_range_def)
    with assms show ?thesis by blast
  qed
  then show ?thesis by (simp add: filter_empty_conv)
qed

text \<open>
  Claim C2: the force reader adds the blocks of exactly those boundary indices
  \<open>ibc + 1\<close>, \<open>ibc\<close> from 0 below the boundary count, that are in the no-slip list, in
  ascending order; the other blocks are not read. After an extraction pass on a new parser
  in which no index from 1 to the boundary count is in the no-slip list, the four
  vectors are \<open>[0, 0, 0]\<close>.
\<close>

theorem no_slip_accumulation:
  "ReadForces B fs s =
     guarded (ebind (readlines fs (info1FileName s)) (\<lambda>lines.
       for_each (\<lambda>ibc. Forces_block B lines
                   (int (length lines) - 23 * numBounds s + 1 + ibc * 23))
         (filter (\<lambda>ibc. ibc + 1 \<in> set (noSlipWalls s)) (py_range (numBounds s))) s)) \<and>
   (Process B fs (snd (init fs name)) = Inr p \<and> set (noSlipWalls p) \<inter> {1..numBounds p} = {}
      \<longrightarrow> force_tol p = [0, 0, 0] \<and> force_inv p = [0, 0, 0] \<and> force_vis p = [0, 0, 0] \<and>
          moment p = [0, 0, 0])"
proof -
  have eq: "ReadForces B fs s =
     guarded (ebind (readlines fs (info1FileName s)) (\<lambda>lines.
       for_each (\<lambda>ibc. Forces_block B lines
                   (int (length lines) - 23 * numBounds s + 1 + ibc * 23))
         (filter (\<lambda>ibc. ibc + 1 \<in> set (noSlipWalls s)) (py_range (numBounds s))) s))" for s
    by (simp add: ReadForces_def Let_def Forces_loop_filter)
  have zero: "force_tol p = [0, 0, 0] \<and> force_inv p = [0, 0, 0] \<and> force_vis p = [0, 0, 0] \<and>
          moment p = [0, 0, 0]"
    if run: "Process B fs (snd (init fs name)) = Inr p"
      and none: "set (noSlipWalls p) \<inter> {1..numBounds p} = {}"
  proof -
    from run have "Process B fs (new_parser name) = Inr p"
      by simp
    then obtain s1 s2 s3 where h: "ReadRefVals B fs (new_parser name) = Inr s1"
      "ReadBcInfos B fs s1 = Inr s2" "ReadRefGeomVals B fs s2 = Inr s3"
      "ReadForces B fs s3 = Inr p"
      by (rule Process_steps)
    note k = ReadRefVals_keeps[OF h(1)] ReadBcInfos_keeps[OF h(2)] ReadRefGeomVals_keeps[OF h(3)]
    have s3: "force_tol s3 = [0, 0, 0]" "force_inv s3 = [0, 0, 0]" "force_vis s3 = [0, 0, 0]"
      "moment s3 = [0, 0, 0]"
      by (simp_all add: k)
    have "noSlipWalls s3 = noSlipWalls p" "numBounds s3 = numBounds p"
      by (simp_all add: ReadForces_keeps[OF h(4)])
    with none have "filter (\<lambda>ibc. ibc + 1 \<in> set (noSlipWalls s3)) (py_range (numBounds s3)) = []"
      by (simp add: py_range_no_wall)
    with h(4) have "p = s3"
      unfolding eq[of s3] by (cases "readlines fs (info1FileName s3)") (simp_all add: guarded_def)
    with s3 show ?thesis by simp
  qed
  show ?thesis
  proof (intro conjI impI)
    show "ReadForces B fs s =
     guarded (ebind (readlines fs (info1FileName s)) (\<lambda>lines.
       for_each (\<lambda>ibc. Forces_block B lines
                   (int (length lines) - 23 * numBounds s + 1 + ibc * 23))
         (filter (\<lambda>ibc. ibc + 1 \<in> set (noSlipWalls s)) (py_range (numBounds s))) s))"
      by (rule eq)
  next
    assume "Process B fs (snd (init fs name)) = Inr p \<and>
      set (noSlipWalls p) \<inter> {1..numBounds p} = {}"
    then have "force_tol p = [0, 0, 0] \<and> force_inv p = [0, 0, 0] \<and>
      force_vis p = [0, 0, 0] \<and> moment p = [0, 0, 0]"
      using zero by simp
    then show "force_tol p = [0, 0, 0]" "force_inv p = [0, 0, 0]" "force_vis p = [0, 0, 0]"
      "moment p = [0, 0, 0]"
      by simp_all
  qed
qed

lemma slip_case_files [simp]:
  "slip_case ''c/c.log'' = Some (File slip_log)"
  "slip_case ''c/infout1f.inp'' = Some (File sample_inp)"
  "slip_case ''c/mcfd.info1'' = Some (File sample_report)"
  by (simp_all add: slip_case_def)

lemma slip_case_Process:
  "Process decimal slip_case (new_parser ''c'') = Inr slip_result"
proof -
  have 1: "ReadRefVals decimal slip_case (new_parser ''c'') = Inr sample_refvals"
    by (simp add: ReadRefVals_def RefVals_line_def RefVals_derive_def sample_refvals_def
        slip_log_def py_sqrt_def py_div_def const_R_def const_gamma_def eval_defs)
  have 2: "ReadBcInfos decimal slip_case sample_refvals = Inr (sample_refvals\<lparr>numBounds := 1\<rparr>)"
    by (simp add: ReadBcInfos_def NoSlip_line_def sample_refvals_def slip_log_def eval_defs)
  have 3: "ReadRefGeomVals decimal slip_case (sample_refvals\<lparr>numBounds := 1\<rparr>) = Inr slip_result"
    by (simp add: ReadRefGeomVals_def IsClDriverCase_def RefGeom_line_def sample_refvals_def
        slip_result_def slip_log_def sample_inp_def eval_defs)
  have 4: "ReadForces decimal slip_case slip_result = Inr slip_result"
    by (simp add: ReadForces_def Forces_step_def py_range_def slip_result_def readlines_def guarded_def)
  show ?thesis
    by (simp add: Process_def 1 2 3 4)
qed

theorem no_slip_accumulation_witness:
  "Process decimal slip_case (snd (init slip_case ''c'')) = Inr slip_result \<and>
   numBounds slip_result = 1 \<and> set (noSlipWalls slip_result) \<inter> {1..numBounds slip_result} = {} \<and>
   force_tol slip_result = [0, 0, 0] \<and> force_inv slip_result = [0, 0, 0] \<and>
   force_vis slip_result = [0, 0, 0] \<and> moment slip_result = [0, 0, 0]"
proof -
  have h: "Process decimal slip_case (snd (init slip_case ''c'')) = Inr slip_result"
    "set (noSlipWalls slip_result) \<inter> {1..numBounds slip_result} = {}"
    "numBounds slip_result = 1"
    by (simp_all add: slip_case_Process slip_result_def)
  from no_slip_accumulation[of decimal slip_case slip_result "''c''" slip_result] h
  show ?thesis by simp
qed

subsection \<open>Tokens that are absent from the log\<close>

text \<open>
  Claim C7 says that the reference-value reader completes, with the field left at 0.0,
  when a recognised token matches no line. For the temperature this fails: with no
  \<^verbatim>\<open>aero_temp\<close> line \<open>refTemp\<close> stays 0.0 and \<^verbatim>\<open>self.refPres/const_R/self.refTemp\<close>
  raises \<^verbatim>\<open>ZeroDivisionError\<close>, which the handler turns into \<^verbatim>\<open>exit(1)\<close>.
\<close>

theorem missing_temperature_aborts:
  "ReadRefVals decimal no_temp_case (snd (init no_temp_case ''c'')) =
     Inl (Exited ZeroDivisionError)"
  by (simp add: init_def ReadRefVals_def RefVals_line_def RefVals_derive_def no_temp_case_def
      no_temp_log_def py_sqrt_def py_div_def const_R_def eval_defs)

lemma for_each_total:
  assumes "P s"
    and "\<And>x a. x \<in> set xs \<Longrightarrow> P a \<Longrightarrow> \<exists>a1. body x a = Inr a1 \<and> P a1"
  shows "\<exists>s'. for_each body xs s = Inr s' \<and> P s'"
  using assms
proof (induction xs arbitrary: s)
  case Nil
  then show ?case by simp
next
  case (Cons x xs)
  from Cons.prems(2)[of x s] Cons.prems(1) obtain a where a: "body x s = Inr a" "P a"
    by auto
  have "\<exists>s'. for_each body xs a = Inr s' \<and> P s'"
  proof (rule Cons.IH[OF a(2)])
    fix y c
    assume "y \<in> set xs" "P c"
    then show "\<exists>a1. body y c = Inr a1 \<and> P a1"
      using Cons.prems(2)[of y c] by simp
  qed
  with a(1) show ?case by simp
qed

lemma float_field_third:
  assumes "length (str_split line) = 3" and "py_float B (str_split line ! 2) = Some v"
  shows "float_field B line 2 = Inr v"
  using assms by (simp add: float_field_def field_def py_index_def to_float_def)

text \<open>A line, and a whole log, on which every matching third field converts.\<close>

lemma RefVals_line_total:
  assumes conv: "match3 ''aero_pres'' line \<or> match3 ''aero_temp'' line \<or> match3 ''aero_u'' line \<or>
      match3 ''aero_v'' line \<or> match3 ''aero_w'' line \<Longrightarrow> py_float B (str_split line ! 2) \<noteq> None"
    and len: "length (refVels s) = 3"
  shows "\<exists>s1. RefVals_line B line s = Inr s1 \<and> length (refVels s1) = 3"
  unfolding RefVals_line_def
proof (rule for_each_total[where P = "\<lambda>a::CFDppParser. length (refVels a) = 3", OF len])
  fix stmt and a :: CFDppParser
  assume stmt: "stmt \<in> set [set_refPres B line, set_refTemp B line, set_refVel ''aero_u'' 0 B line,
        set_refVel ''aero_v'' 1 B line, set_refVel ''aero_w'' 2 B line]"
    and a: "length (refVels a) = 3"
  show "\<exists>a1. stmt a = Inr a1 \<and> length (refVels a1) = 3"
  proof (cases "match3 ''aero_pres'' line \<or> match3 ''aero_temp'' line \<or> match3 ''aero_u'' line \<or>
      match3 ''aero_v'' line \<or> match3 ''aero_w'' line")
    case False
    with stmt a show ?thesis
      by (auto simp: set_refPres_def set_refTemp_def set_refVel_def)
  next
    case True
    then have len3: "length (str_split line) = 3"
      by (auto simp: match3_def)
    from conv[OF True] obtain v where "py_float B (str_split line ! 2) = Some v"
      by auto
    from float_field_third[OF len3 this] stmt a show ?thesis
      by (auto simp: set_refPres_def set_refTemp_def set_refVel_def py_setitem_def)
  qed
qed

lemma RefVals_scan_total:
  assumes "\<And>line. line \<in> set lines \<Longrightarrow>
      match3 ''aero_pres'' line \<or> match3 ''aero_temp'' line \<or> match3 ''aero_u'' line \<or>
      match3 ''aero_v'' line \<or> match3 ''aero_w'' line \<Longrightarrow> py_float B (str_split line ! 2) \<noteq> None"
    and "length (refVels s) = 3"
  shows "\<exists>s1. for_each (RefVals_line B) lines s = Inr s1 \<and> length (refVels s1) = 3"
proof (rule for_each_total[where P = "\<lambda>a::CFDppParser. length (refVels a) = 3", OF assms(2)])
  fix line and a :: CFDppParser
  assume "line \<in> set lines" "length (refVels a) = 3"
  then show "\<exists>a1. RefVals_line B line a = Inr a1 \<and> length (refVels a1) = 3"
    using RefVals_line_total[of line B a] assms(1)[of line] by blast
qed


text \<open>The last matching temperature line gives the temperature.\<close>

lemma float_field_the:
  assumes "float_field B line 2 = Inr v" and "length (str_split line) = 3"
  shows "v = the (py_float B (str_split line ! 2))"
  using assms
  by (auto simp: float_field_def field_def py_index_def to_float_def ebind_Inr_iff
      split: option.splits)

lemma RefVals_line_refTemp:
  assumes "RefVals_line B line s = Inr s1"
  shows "refTemp s1 = (if match3 ''aero_temp'' line then the (py_float B (str_split line ! 2))
                       else refTemp s)"
proof -
  from assms obtain a b where a: "set_refPres B line s = Inr a"
    and b: "set_refTemp B line a = Inr b"
    and c: "for_each (\<lambda>stmt. stmt) [set_refVel ''aero_u'' 0 B line,
              set_refVel ''aero_v'' 1 B line, set_refVel ''aero_w'' 2 B line] b = Inr s1"
    unfolding RefVals_line_def by (auto simp: ebind_Inr_iff)
  have "refTemp a = refTemp s"
    using a by (auto simp: set_refPres_def ebind_Inr_iff split: if_splits)
  moreover have "refTemp b = (if match3 ''aero_temp'' line
      then the (py_float B (str_split line ! 2)) else refTemp a)"
    using b by (auto simp: set_refTemp_def ebind_Inr_iff match3_def split: if_splits
        dest: float_field_the)
  moreover have "refTemp s1 = refTemp b"
    by (rule for_each_inv[OF c, where P = "\<lambda>x. refTemp x = refTemp b"])
       (auto simp: set_refVel_def ebind_Inr_iff split: if_splits)
  ultimately show ?thesis by simp
qed

lemma RefVals_scan_refTemp:
  assumes "for_each (RefVals_line B) lines s = Inr s'"
  shows "refTemp s' =
     (if filter (match3 ''aero_temp'') lines = [] then refTemp s
      else the (py_float B (str_split (last (filter (match3 ''aero_temp'') lines)) ! 2)))"
  using assms
proof (induction lines arbitrary: s)
  case Nil
  then show ?case by simp
next
  case (Cons line lines)
  from Cons.prems obtain s1 where s1: "RefVals_line B line s = Inr s1"
    and rest: "for_each (RefVals_line B) lines s1 = Inr s'"
    by (auto simp: ebind_Inr_iff)
  from Cons.IH[OF rest] RefVals_line_refTemp[OF s1] show ?case
    by simp
qed

text \<open>A field whose token matches no line keeps its value.\<close>

lemma RefVals_line_no_match:
  assumes "RefVals_line B line s = Inr s1"
  shows "\<not> match3 ''aero_pres'' line \<Longrightarrow> refPres s1 = refPres s"
    and "\<not> match3 ''aero_u'' line \<Longrightarrow> refVels s1 ! 0 = refVels s ! 0"
    and "\<not> match3 ''aero_v'' line \<Longrightarrow> refVels s1 ! 1 = refVels s ! 1"
    and "\<not> match3 ''aero_w'' line \<Longrightarrow> refVels s1 ! 2 = refVels s ! 2"
proof -
  note run = assms[unfolded RefVals_line_def]
  show "refPres s1 = refPres s" if "\<not> match3 ''aero_pres'' line"
    by (rule for_each_inv[OF run, where P = "\<lambda>x. refPres x = refPres s"])
       (use that in \<open>auto simp: set_refPres_def set_refTemp_def set_refVel_def ebind_Inr_iff
          split: if_splits\<close>)
  show "refVels s1 ! 0 = refVels s ! 0" if "\<not> match3 ''aero_u'' line"
    by (rule for_each_inv[OF run, where P = "\<lambda>x. refVels x ! 0 = refVels s ! 0"])
       (use that in \<open>auto simp: set_refPres_def set_refTemp_def set_refVel_def ebind_Inr_iff
          py_setitem_def split: if_splits\<close>)
  show "refVels s1 ! 1 = refVels s ! 1" if "\<not> match3 ''aero_v'' line"
    by (rule for_each_inv[OF run, where P = "\<lambda>x. refVels x ! 1 = refVels s ! 1"])
       (use that in \<open>auto simp: set_refPres_def set_refTemp_def set_refVel_def ebind_Inr_iff
          py_setitem_def split: if_splits\<close>)
  show "refVels s1 ! 2 = refVels s ! 2" if "\<not> match3 ''aero_w'' line"
    by (rule for_each_inv[OF run, where P = "\<lambda>x. refVels x ! 2 = refVels s ! 2"])
       (use that in \<open>auto simp: set_refPres_def set_refTemp_def set_refVel_def ebind_Inr_iff
          py_setitem_def split: if_splits\<close>)
qed

lemma RefVals_scan_no_match:
  assumes "for_each (RefVals_line B) lines s = Inr s'"
  shows "\<forall>line\<in>set lines. \<not> match3 ''aero_pres'' line \<Longrightarrow> refPres s' = refPres s"
    and "\<forall>line\<in>set lines. \<not> match3 ''aero_u'' line \<Longrightarrow> refVels s' ! 0 = refVels s ! 0"
    and "\<forall>line\<in>set lines. \<not> match3 ''aero_v'' line \<Longrightarrow> refVels s' ! 1 = refVels s ! 1"
    and "\<forall>line\<in>set lines. \<not> match3 ''aero_w'' line \<Longrightarrow> refVels s' ! 2 = refVels s ! 2"
proof -
  show "refPres s' = refPres s" if "\<forall>line\<in>set lines. \<not> match3 ''aero_pres'' line"
    by (rule for_each_inv[OF assms, where P = "\<lambda>x. refPres x = refPres s"])
       (use that in \<open>auto dest: RefVals_line_no_match(1)\<close>)
  show "refVels s' ! 0 = refVels s ! 0" if "\<forall>line\<in>set lines. \<not> match3 ''aero_u'' line"
    by (rule for_each_inv[OF assms, where P = "\<lambda>x. refVels x ! 0 = refVels s ! 0"])
       (use that in \<open>auto dest: RefVals_line_no_match(2)\<close>)
  show "refVels s' ! 1 = refVels s ! 1" if "\<forall>line\<in>set lines. \<not> match3 ''aero_v'' line"
    by (rule for_each_inv[OF assms, where P = "\<lambda>x. refVels x ! 1 = refVels s ! 1"])
       (use that in \<open>auto dest: RefVals_line_no_match(3)\<close>)
  show "refVels s' ! 2 = refVels s ! 2" if "\<forall>line\<in>set lines. \<not> match3 ''aero_w'' line"
    by (rule for_each_inv[OF assms, where P = "\<lambda>x. refVels x ! 2 = refVels s ! 2"])
       (use that in \<open>auto dest: RefVals_line_no_match(4)\<close>)
qed

lemma RefVals_derive_total:
  assumes "0 < refTemp s1" and "refVmag s1 = 0" and "length (refVels s1) = 3"
  shows "\<exists>s. RefVals_derive s1 = Inr s \<and> refPres s = refPres s1 \<and> refTemp s = refTemp s1 \<and>
             refVels s = refVels s1"
proof -
  from assms(3) obtain a b c where vels: "refVels s1 = [a, b, c]"
    by (rule length3E)
  have "\<not> a * a + b * b + c * c < 0"
    by (simp add: not_less)
  moreover have "0 < const_gamma * const_R * refTemp s1"
    using assms(1) by (simp add: const_gamma_def const_R_def)
  ultimately show ?thesis
    using assms(1,2) unfolding RefVals_derive_def
    by (simp add: py_sqrt_def py_div_def vels const_R_def const_gamma_def)
qed

text \<open>
  Claim C7 as amended: when the pressure token or a velocity-component token matches no
  line with exactly three fields, the reader leaves that field at its default 0.0 and the
  miss raises no error: on a new parser the reader returns whenever the log can be read,
  the third field of every matching line converts to a float, and the last matching
  temperature line gives a positive temperature \<open>T\<close>.
\<close>

theorem lenient_default_of_pressure_and_velocity:
  assumes log: "readlines fs (logFileName (new_parser name)) = Inr lines"
    and conv: "\<forall>line\<in>set lines.
      match3 ''aero_pres'' line \<or> match3 ''aero_temp'' line \<or> match3 ''aero_u'' line \<or>
      match3 ''aero_v'' line \<or> match3 ''aero_w'' line \<longrightarrow> py_float B (str_split line ! 2) \<noteq> None"
    and temp: "filter (match3 ''aero_temp'') lines \<noteq> []"
      "py_float B (str_split (last (filter (match3 ''aero_temp'') lines)) ! 2) = Some T" "0 < T"
  shows "\<exists>s. ReadRefVals B fs (snd (init fs name)) = Inr s \<and> refTemp s = T \<and>
           ((\<forall>line\<in>set lines. \<not> match3 ''aero_pres'' line) \<longrightarrow> refPres s = 0) \<and>
           ((\<forall>line\<in>set lines. \<not> match3 ''aero_u'' line) \<longrightarrow> refVels s ! 0 = 0) \<and>
           ((\<forall>line\<in>set lines. \<not> match3 ''aero_v'' line) \<longrightarrow> refVels s ! 1 = 0) \<and>
           ((\<forall>line\<in>set lines. \<not> match3 ''aero_w'' line) \<longrightarrow> refVels s ! 2 = 0)"
proof -
  have "\<exists>s1. for_each (RefVals_line B) lines (new_parser name) = Inr s1 \<and> length (refVels s1) = 3"
    by (rule RefVals_scan_total) (use conv in auto)
  then obtain s1 where scan: "for_each (RefVals_line B) lines (new_parser name) = Inr s1"
    and len: "length (refVels s1) = 3"
    by blast
  have T: "refTemp s1 = T"
    using RefVals_scan_refTemp[OF scan] temp by simp
  have vmag: "refVmag s1 = 0"
    using RefVals_scan_keeps_derived[OF scan] by simp
  from RefVals_derive_total[OF _ vmag len] T temp(3)
  obtain s where s: "RefVals_derive s1 = Inr s" "refPres s = refPres s1" "refTemp s = refTemp s1"
    "refVels s = refVels s1"
    by auto
  have run: "ReadRefVals B fs (snd (init fs name)) = Inr s"
    using log by (simp add: ReadRefVals_def scan s(1) guarded_def)
  note miss = RefVals_scan_no_match[OF scan]
  have "(\<forall>line\<in>set lines. \<not> match3 ''aero_pres'' line) \<longrightarrow> refPres s = 0"
    using miss(1) by (simp add: s)
  moreover have "(\<forall>line\<in>set lines. \<not> match3 ''aero_u'' line) \<longrightarrow> refVels s ! 0 = 0"
    using miss(2) by (simp add: s)
  moreover have "(\<forall>line\<in>set lines. \<not> match3 ''aero_v'' line) \<longrightarrow> refVels s ! 1 = 0"
    using miss(3) by (simp add: s)
  moreover have "(\<forall>line\<in>set lines. \<not> match3 ''aero_w'' line) \<longrightarrow> refVels s ! 2 = 0"
    using miss(4) by (simp add: s)
  ultimately show ?thesis
    using run s(3) T by blast
qed

lemma sample_log_matches:
  "filter (match3 ''aero_pres'') sample_log = [''aero_pres = 101325\<newline>'']"
  "filter (match3 ''aero_temp'') sample_log = [''aero_temp = 288\<newline>'']"
  "filter (match3 ''aero_u'') sample_log = [''aero_u = 10\<newline>'']"
  "filter (match3 ''aero_v'') sample_log = []"
  "filter (match3 ''aero_w'') sample_log = []"
  by (simp_all add: sample_log_def match3_def str_split_def isspace_def)

theorem lenient_default_of_pressure_and_velocity_witness:
  "readlines sample_case (logFileName (new_parser ''c'')) = Inr sample_log \<and>
   filter (match3 ''aero_temp'') sample_log = [''aero_temp = 288\<newline>''] \<and>
   py_float decimal (str_split ''aero_temp = 288\<newline>'' ! 2) = Some 288 \<and>
   filter (match3 ''aero_v'') sample_log = [] \<and>
   ReadRefVals decimal sample_case (snd (init sample_case ''c'')) = Inr sample_refvals \<and>
   refTemp sample_refvals = 288 \<and> refVels sample_refvals ! 1 = 0"
proof -
  have log: "readlines sample_case (logFileName (new_parser ''c'')) = Inr sample_log"
    by (simp add: readlines_def)
  have no_v: "\<forall>line\<in>set sample_log. \<not> match3 ''aero_v'' line"
    using sample_log_matches(4) by (simp add: filter_empty_conv)
  have conv: "\<forall>line\<in>set sample_log.
      match3 ''aero_pres'' line \<or> match3 ''aero_temp'' line \<or> match3 ''aero_u'' line \<or>
      match3 ''aero_v'' line \<or> match3 ''aero_w'' line \<longrightarrow>
      py_float decimal (str_split line ! 2) \<noteq> None"
    by (simp add: sample_log_def match3_def str_split_def isspace_def decimal_def dec_float_def
        dec_int_def dec_nat_def)
  have temp: "filter (match3 ''aero_temp'') sample_log \<noteq> []"
    "py_float decimal (str_split (last (filter (match3 ''aero_temp'') sample_log)) ! 2) = Some 288"
    "(0::real) < 288"
    by (simp_all add: sample_log_matches str_split_def isspace_def decimal_def dec_float_def
        dec_int_def dec_nat_def)
  from lenient_default_of_pressure_and_velocity[OF log conv temp] no_v
  obtain s where s: "ReadRefVals decimal sample_case (snd (init sample_case ''c'')) = Inr s"
    "refTemp s = 288" "refVels s ! 1 = 0"
    by blast
  have "ReadRefVals decimal sample_case (snd (init sample_case ''c'')) = Inr sample_refvals"
    by (simp add: sample_case_ReadRefVals sample_refvals_def)
  with s log temp(2) show ?thesis
    by (simp add: sample_log_matches)
qed

subsection \<open>Two passes on one object\<close>

lemma sample_result_sel:
  "logFileName sample_result = ''c/c.log''" "infinFileName sample_result = ''c/infout1f.inp''"
  "info1FileName sample_result = ''c/mcfd.info1''" "numBounds sample_result = 1"
  "noSlipWalls sample_result = [1]" "force_tol sample_result = [10, 4, 2]"
  "force_inv sample_result = [8, 3, 2]" "force_vis sample_result = [2, 1, 0]"
  "moment sample_result = [0, 0, 5]"
  by (simp_all add: sample_result_def)

lemma sample_case_Process_again:
  "Process decimal sample_case sample_result = Inr sample_result2"
proof -
  have "ReadRefVals decimal sample_case sample_result =
      Inr (sample_result\<lparr>refVmag := sqrt 110, refMach := sqrt 110 / sqrt (14 / 10 * 287 * 288)\<rparr>)"
    by (simp add: ReadRefVals_def RefVals_line_def RefVals_derive_def sample_result_def
        sample_log_def py_sqrt_def py_div_def const_R_def const_gamma_def eval_defs)
  then show ?thesis
    by (simp add: Process_def sample_case_ReadBcInfos sample_case_ReadRefGeomVals
        sample_case_ReadForces sample_result_sel)
       (simp add: sample_result_def sample_result2_def)
qed

text \<open>
  Claim C6 says that a second \<^verbatim>\<open>Process\<close> on the same object yields the boundary list,
  the force and moment vectors and the coefficients of the first. The readers never reset
  what they accumulate: \<^verbatim>\<open>self.noSlipWalls.append\<close>, \<^verbatim>\<open>self.force_tol[k] +=\<close> and
  \<^verbatim>\<open>self.refVmag += vel*vel\<close> start from the values the first pass left, while the
  sibling attributes \<open>refDens\<close> and \<open>refMach\<close> are assigned anew. On \<open>sample_case\<close>
  (velocity \<open>(10, 0, 0)\<close>, one no-slip boundary with total force \<open>(10, 4, 2)\<close>) the
  second pass returns the no-slip list \<open>[1, 1]\<close>, the total force \<open>[20, 8, 4]\<close> and the
  velocity magnitude \<open>sqrt (10 + 100)\<close>, where \<^verbatim>\<open>GetForceTol\<close> is documented to return the
  total forces and \<^verbatim>\<open>GetRefVmag\<close> the reference velocity magnitude.
\<close>

theorem second_pass_accumulates:
  "returned noSlipWalls (Process decimal sample_case (snd (init sample_case ''c''))) = Some [1] \<and>
   returned noSlipWalls (Process_twice decimal sample_case (snd (init sample_case ''c''))) =
     Some [1, 1] \<and>
   returned force_tol (Process decimal sample_case (snd (init sample_case ''c''))) =
     Some [10, 4, 2] \<and>
   returned force_tol (Process_twice decimal sample_case (snd (init sample_case ''c''))) =
     Some [20, 8, 4] \<and>
   returned refVmag (Process decimal sample_case (snd (init sample_case ''c''))) = Some 10 \<and>
   returned refVmag (Process_twice decimal sample_case (snd (init sample_case ''c''))) =
     Some (sqrt 110)"
  by (simp add: Process_twice_def sample_case_Process sample_case_Process_again returned_def)
     (simp add: sample_result_def sample_result2_def)

end
